theory Spec2Isabelle
  imports Complex_Main
begin

section \<open>Python values\<close>

text \<open>
  The option classes store and exchange dynamically typed Python values. A value is
  \<open>None\<close>, a boolean, an integer, a float or \<open>Decimal\<close> (kept as an exact number),
  a string, a list, a dictionary (an association list in insertion order) or an
  instance of a class, named by its class and carrying its state.
\<close>

datatype pyval =
    VNone
  | VBool bool
  | VInt int
  | VFloat real
  | VStr string
  | VList "pyval list"
  | VDict "(string \<times> pyval) list"
  | VObj string pyval

type_synonym pydict = "(string \<times> pyval) list"

text \<open>Python truthiness, as tested by \<^verbatim>\<open>if not value\<close>.\<close>

fun truthy :: "pyval \<Rightarrow> bool" where
  "truthy VNone = False"
| "truthy (VBool b) = b"
| "truthy (VInt i) = (i \<noteq> 0)"
| "truthy (VFloat r) = (r \<noteq> 0)"
| "truthy (VStr s) = (s \<noteq> [])"
| "truthy (VList xs) = (xs \<noteq> [])"
| "truthy (VDict d) = (d \<noteq> [])"
| "truthy (VObj c p) = True"

text \<open>\<^verbatim>\<open>k in d\<close>, \<^verbatim>\<open>d.get(k, default)\<close> and \<^verbatim>\<open>d.pop(k, default)\<close> on a dictionary.
  \<open>dict_pop\<close> returns the value together with the dictionary the call leaves behind.\<close>

definition has_key :: "pydict \<Rightarrow> string \<Rightarrow> bool" where
  "has_key d k = (map_of d k \<noteq> None)"

definition dict_get :: "pydict \<Rightarrow> string \<Rightarrow> pyval \<Rightarrow> pyval" where
  "dict_get d k dflt = (case map_of d k of Some v \<Rightarrow> v | None \<Rightarrow> dflt)"

definition dict_pop :: "pydict \<Rightarrow> string \<Rightarrow> pyval \<Rightarrow> pyval \<times> pydict" where
  "dict_pop d k dflt = (dict_get d k dflt, filter (\<lambda>kv. fst kv \<noteq> k) d)"

text \<open>\<^verbatim>\<open>sub in s\<close> on strings: \<open>sub\<close> occurs in \<open>s\<close> as a contiguous substring.\<close>

fun starts_with :: "string \<Rightarrow> string \<Rightarrow> bool" where
  "starts_with s [] = True"
| "starts_with [] (c # cs) = False"
| "starts_with (a # s) (c # cs) = (a = c \<and> starts_with s cs)"

fun str_contains :: "string \<Rightarrow> string \<Rightarrow> bool" where
  "str_contains [] sub = (sub = [])"
| "str_contains (a # s) sub = (starts_with (a # s) sub \<or> str_contains s sub)"


section \<open>The trim step\<close>

text \<open>
  Modelled from the spec: \<^verbatim>\<open>HighchartsMeta.trim_dict\<close>, which every \<^verbatim>\<open>to_dict\<close> calls, is
  defined in \<^verbatim>\<open>highcharts/metaclasses.py\<close>, a file that is not part of the sources at hand.
  The spec says: trim recursively removes entries whose value is the nullable-unset
  sentinel, an empty sequence, or an empty mapping, retains boolean false and numeric 0,
  and is applied bottom-up so that a parent key whose nested mapping trims to empty is
  itself removed. Every other value (also the empty string) is kept as it is. Nested
  nodes are serialised before the trim step runs, see \<open>serialize\<close> below.
\<close>

fun trim_dict :: "pydict \<Rightarrow> pydict" where
  "trim_dict [] = []"
| "trim_dict ((k, VNone) # rest) = trim_dict rest"
| "trim_dict ((k, VList []) # rest) = trim_dict rest"
| "trim_dict ((k, VDict d) # rest) =
     (let t = trim_dict d in
      if t = [] then trim_dict rest else (k, VDict t) # trim_dict rest)"
| "trim_dict ((k, v) # rest) = (k, v) # trim_dict rest"


section \<open>Errors and collaborators\<close>

text \<open>
  Every exception the modelled code can raise is a value. \<open>HighchartsValueError\<close> carries
  the value its message reports (\<^verbatim>\<open>Value received was: {value}\<close>); the next group are the
  errors of the validator package; \<open>InvalidNodeShape\<close> is the spec's name for a value that
  fits no nested node; the last four are Python's own.
\<close>

datatype error =
    HighchartsValueError pyval
  | InvalidNodeShape pyval
  | EmptyValueError
  | CannotCoerceError
  | MinimumValueError
  | MaximumValueError
  | NotADictError
  | NotAnIntegerError
  | NotAnIterableError
  | ValueError
  | TypeError
  | AttributeError string
  | NameError string

text \<open>
  \<^verbatim>\<open>except ValueError\<close> catches an error whose class derives from \<open>ValueError\<close>. The
  coercion errors of the validator package (\<open>CannotCoerceError\<close> and its subclass
  \<open>NotAnIterableError\<close>) derive from \<open>TypeError\<close>, its other errors from \<open>ValueError\<close>;
  the errors of the package's own \<^verbatim>\<open>errors\<close> module are value errors.
\<close>

fun is_ValueError :: "error \<Rightarrow> bool" where
  "is_ValueError (HighchartsValueError v) = True"
| "is_ValueError (InvalidNodeShape v) = True"
| "is_ValueError EmptyValueError = True"
| "is_ValueError CannotCoerceError = False"
| "is_ValueError MinimumValueError = True"
| "is_ValueError MaximumValueError = True"
| "is_ValueError NotADictError = True"
| "is_ValueError NotAnIntegerError = True"
| "is_ValueError NotAnIterableError = False"
| "is_ValueError ValueError = True"
| "is_ValueError TypeError = False"
| "is_ValueError (AttributeError n) = False"
| "is_ValueError (NameError n) = False"

text \<open>
  What the code imports but the sources at hand do not contain is a parameter of the model:
  Python's \<^verbatim>\<open>float(str)\<close>, the dictionary a JSON string denotes, what the factories of
  \<^verbatim>\<open>Gradient\<close> and \<^verbatim>\<open>Pattern\<close> make of a JSON text, of a dictionary (\<^verbatim>\<open>from_dict\<close>) and of
  keywords (the constructor), the \<^verbatim>\<open>from_dict\<close> of the other nested option classes (by class
  name), the untrimmed mapping of an instance of a nested class (by class name, nested
  nodes in it expanded), and the tables of \<^verbatim>\<open>highcharts.constants\<close>. A factory returns the
  state of the instance it builds, or the error it raises.
\<close>

record ext =
  float_of_str :: "string \<Rightarrow> real option"
  dict_of_json :: "string \<Rightarrow> error + pydict"
  Gradient_from_json_text :: "string \<Rightarrow> error + pyval"
  Gradient_from_dict :: "pydict \<Rightarrow> error + pyval"
  Gradient_init :: "pydict \<Rightarrow> error + pyval"
  Pattern_from_json_text :: "string \<Rightarrow> error + pyval"
  Pattern_from_dict :: "pydict \<Rightarrow> error + pyval"
  Pattern_init :: "pydict \<Rightarrow> error + pyval"
  node_from_dict :: "string \<Rightarrow> pydict \<Rightarrow> error + pyval"
  node_to_untrimmed_dict :: "string \<Rightarrow> pyval \<Rightarrow> pydict"
  DEFAULT_PANE_BACKGROUND :: pydict
  DEFAULT_PANE :: pydict
  SUPPORTED_CURSOR_VALUES :: "string list"
  SUPPORTED_DASH_STYLE_VALUES :: "string list"
  EnforcedNull :: pyval

text \<open>Sequencing of statements that may raise: the first error ends the computation.\<close>

definition bind :: "error + 'a \<Rightarrow> ('a \<Rightarrow> error + 'b) \<Rightarrow> error + 'b" where
  "bind m f = (case m of Inl e \<Rightarrow> Inl e | Inr x \<Rightarrow> f x)"

text \<open>An instance of class \<open>cls\<close> built by a factory, and \<^verbatim>\<open>isinstance(value, cls)\<close>.\<close>

definition instance_of :: "string \<Rightarrow> error + pyval \<Rightarrow> error + pyval" where
  "instance_of cls r = (case r of Inl e \<Rightarrow> Inl e | Inr p \<Rightarrow> Inr (VObj cls p))"

fun isinstance :: "pyval \<Rightarrow> string \<Rightarrow> bool" where
  "isinstance (VObj c p) cls = (c = cls)"
| "isinstance v cls = False"

text \<open>
  Modelled from the spec: \<^verbatim>\<open>Gradient.from_json\<close> and \<^verbatim>\<open>Pattern.from_json\<close> are inherited from
  \<^verbatim>\<open>HighchartsMeta\<close>, which is not part of the sources at hand. The spec describes such a
  factory as one that first parses the text into a mapping and then delegates to
  \<^verbatim>\<open>from_dict\<close>. The parser of JSON text, \<^verbatim>\<open>json.loads\<close>, raises \<open>TypeError\<close> when it is handed
  anything but a text, a dictionary included; what the factory makes of a text is a
  parameter.
\<close>

definition Gradient_from_json :: "ext \<Rightarrow> pyval \<Rightarrow> error + pyval" where
  "Gradient_from_json x value =
     (case value of VStr s \<Rightarrow> Gradient_from_json_text x s | _ \<Rightarrow> Inl TypeError)"

definition Pattern_from_json :: "ext \<Rightarrow> pyval \<Rightarrow> error + pyval" where
  "Pattern_from_json x value =
     (case value of VStr s \<Rightarrow> Pattern_from_json_text x s | _ \<Rightarrow> Inl TypeError)"


section \<open>The validators\<close>

text \<open>
  \<^verbatim>\<open>validator_collection\<close> is an external package. Its validators are modelled by the
  contract the package documents. \<^verbatim>\<open>validators.string(value, allow_empty)\<close>: an empty
  (falsy) value is \<open>None\<close> when \<open>allow_empty\<close> holds and an \<open>EmptyValueError\<close> otherwise;
  a string is returned as it is; any other value is not coerced and raises
  \<open>CannotCoerceError\<close>.
\<close>

definition v_string :: "pyval \<Rightarrow> bool \<Rightarrow> error + pyval" where
  "v_string value allow_empty =
     (if \<not> truthy value \<and> \<not> allow_empty then Inl EmptyValueError
      else if \<not> truthy value then Inr VNone
      else (case value of VStr s \<Rightarrow> Inr (VStr s) | _ \<Rightarrow> Inl CannotCoerceError))"

text \<open>
  \<^verbatim>\<open>validators.numeric(value, allow_empty, minimum, maximum)\<close>: \<open>None\<close> is empty; a string
  is parsed by \<^verbatim>\<open>float\<close>; an \<open>int\<close>, \<open>float\<close> or \<open>Decimal\<close> (a \<open>bool\<close> is an \<open>int\<close>) is
  returned as it is; anything else raises \<open>CannotCoerceError\<close>. The bounds are checked
  on the coerced number.
\<close>

fun num_of :: "pyval \<Rightarrow> real" where
  "num_of (VInt i) = real_of_int i"
| "num_of (VFloat r) = r"
| "num_of (VBool b) = (if b then 1 else 0)"
| "num_of v = 0"

definition coerce_numeric :: "ext \<Rightarrow> pyval \<Rightarrow> error + pyval" where
  "coerce_numeric x value =
     (case value of
        VStr s \<Rightarrow> (case float_of_str x s of Some r \<Rightarrow> Inr (VFloat r) | None \<Rightarrow> Inl CannotCoerceError)
      | VInt i \<Rightarrow> Inr (VInt i)
      | VFloat r \<Rightarrow> Inr (VFloat r)
      | VBool b \<Rightarrow> Inr (VBool b)
      | _ \<Rightarrow> Inl CannotCoerceError)"

definition check_bounds :: "real option \<Rightarrow> real option \<Rightarrow> pyval \<Rightarrow> error + pyval" where
  "check_bounds minimum maximum v =
     (if (case maximum of Some m \<Rightarrow> m < num_of v | None \<Rightarrow> False) then Inl MaximumValueError
      else if (case minimum of Some m \<Rightarrow> num_of v < m | None \<Rightarrow> False) then Inl MinimumValueError
      else Inr v)"

definition v_numeric_bounded :: "ext \<Rightarrow> pyval \<Rightarrow> bool \<Rightarrow> real option \<Rightarrow> real option \<Rightarrow> error + pyval" where
  "v_numeric_bounded x value allow_empty minimum maximum =
     (if value = VNone then (if allow_empty then Inr VNone else Inl EmptyValueError)
      else bind (coerce_numeric x value) (check_bounds minimum maximum))"

definition v_numeric :: "ext \<Rightarrow> pyval \<Rightarrow> bool \<Rightarrow> error + pyval" where
  "v_numeric x value allow_empty = v_numeric_bounded x value allow_empty None None"


section \<open>Nested nodes\<close>

text \<open>
  Modelled from the spec: \<^verbatim>\<open>validate_types\<close> and the \<^verbatim>\<open>class_sensitive\<close> decorator live in
  \<^verbatim>\<open>highcharts/decorators.py\<close>, which is not part of the sources at hand. The spec says of
  a nested-node slot: an instance of the expected node type is accepted as it is; a mapping
  is turned into a node by the node type's \<^verbatim>\<open>from_dict\<close>; unset or falsy input resolves to
  \<open>None\<close>; any other input is an \<open>InvalidNodeShape\<close>. In a list-capable slot a sequence is
  coerced element by element and a single mapping or instance becomes a one-element
  sequence.
\<close>

definition validate_node :: "(pydict \<Rightarrow> error + pyval) \<Rightarrow> string \<Rightarrow> pyval \<Rightarrow> error + pyval" where
  "validate_node from_dict cls value =
     (case value of
        VObj c p \<Rightarrow> if c = cls then Inr value else Inl (InvalidNodeShape value)
      | VDict d \<Rightarrow> instance_of cls (from_dict d)
      | _ \<Rightarrow> Inl (InvalidNodeShape value))"

fun validate_nodes :: "(pydict \<Rightarrow> error + pyval) \<Rightarrow> string \<Rightarrow> pyval list \<Rightarrow> error + pyval list" where
  "validate_nodes from_dict cls [] = Inr []"
| "validate_nodes from_dict cls (v # vs) =
     bind (validate_node from_dict cls v) (\<lambda>n.
     bind (validate_nodes from_dict cls vs) (\<lambda>ns. Inr (n # ns)))"

definition validate_types :: "(pydict \<Rightarrow> error + pyval) \<Rightarrow> string \<Rightarrow> bool \<Rightarrow> pyval \<Rightarrow> error + pyval" where
  "validate_types from_dict cls force_iterable value =
     (if \<not> truthy value then Inr VNone
      else if force_iterable then
        (case value of
           VList vs \<Rightarrow> bind (validate_nodes from_dict cls vs) (\<lambda>ns. Inr (VList ns))
         | _ \<Rightarrow> bind (validate_node from_dict cls value) (\<lambda>n. Inr (VList [n])))
      else validate_node from_dict cls value)"

definition class_sensitive :: "ext \<Rightarrow> string \<Rightarrow> pyval \<Rightarrow> error + pyval" where
  "class_sensitive x cls value = validate_types (node_from_dict x cls) cls False value"


section \<open>The polymorphic colour setter\<close>

text \<open>
  \<^verbatim>\<open>isinstance(value, (dict, str)) and key in value\<close>: key membership for a dictionary,
  substring test for a string; and the same test restricted to dictionaries.
\<close>

fun dict_or_str_contains :: "pyval \<Rightarrow> string \<Rightarrow> bool" where
  "dict_or_str_contains (VDict d) key = has_key d key"
| "dict_or_str_contains (VStr s) key = str_contains s key"
| "dict_or_str_contains v key = False"

fun dict_contains :: "pyval \<Rightarrow> string \<Rightarrow> bool" where
  "dict_contains (VDict d) key = has_key d key"
| "dict_contains v key = False"

fun kwargs_of :: "pyval \<Rightarrow> pydict" where
  "kwargs_of (VDict d) = d"
| "kwargs_of v = []"

text \<open>
  The setters \<^verbatim>\<open>AxisMarker.color\<close> (markers.py, lines 58 to 87),
  \<^verbatim>\<open>PaneBackground.background_color\<close> and \<^verbatim>\<open>PaneBackground.border_color\<close> (pane.py, lines 51
  to 80 and 94 to 123) and \<^verbatim>\<open>GenericTypeOptions.color\<close> (generic.py, lines 199 to 228) have the
  same body, statement for statement; it is written once. The result is the value the slot
  is assigned, or the error raised.
\<close>

definition color_setter :: "ext \<Rightarrow> pyval \<Rightarrow> error + pyval" where
  "color_setter x value =
     (if \<not> truthy value then Inr VNone
      else if isinstance value ''Gradient'' \<or> isinstance value ''Pattern'' then Inr value
      else if dict_or_str_contains value ''linearGradient'' then
        (case Gradient_from_json x value of
           Inr g \<Rightarrow> Inr (VObj ''Gradient'' g)
         | Inl e \<Rightarrow>
             if is_ValueError e then
               (case value of
                  VDict d \<Rightarrow> instance_of ''Gradient'' (Gradient_from_dict x d)
                | _ \<Rightarrow> v_string value False)
             else Inl e)
      else if dict_contains value ''linear_gradient'' then
        instance_of ''Gradient'' (Gradient_init x (kwargs_of value))
      else if dict_or_str_contains value ''patternOptions'' then
        (case Pattern_from_json x value of
           Inr p \<Rightarrow> Inr (VObj ''Pattern'' p)
         | Inl e \<Rightarrow>
             if is_ValueError e then
               (case value of
                  VDict d \<Rightarrow> instance_of ''Pattern'' (Pattern_from_dict x d)
                | _ \<Rightarrow> v_string value False)
             else Inl e)
      else if dict_contains value ''pattern_options'' then
        instance_of ''Pattern'' (Pattern_init x (kwargs_of value))
      else Inl (HighchartsValueError value))"


section \<open>Serialising nested nodes\<close>

text \<open>
  Modelled from the spec: \<^verbatim>\<open>to_dict\<close> hands the untrimmed mapping, which holds a nested node
  as a reference, to the method \<^verbatim>\<open>self.trim_dict\<close> inherited from \<^verbatim>\<open>HighchartsMeta\<close>, which is not
  part of the sources at hand. The spec says that nested child nodes are serialised
  recursively, that the root then trims the combined mapping, and that the result is
  JSON-compatible. Accordingly a nested node in an untrimmed mapping, or in a sequence in
  it, is replaced by its own untrimmed mapping, and then the trim step runs.
\<close>

fun expand_node :: "ext \<Rightarrow> pyval \<Rightarrow> pyval" where
  "expand_node x (VObj c p) = VDict (node_to_untrimmed_dict x c p)"
| "expand_node x (VList vs) = VList (map (expand_node x) vs)"
| "expand_node x v = v"

text \<open>
  Modelled from the spec: the serialisation of nested nodes, applied to every entry of an
  untrimmed mapping.
\<close>

definition expand_nodes :: "ext \<Rightarrow> pydict \<Rightarrow> pydict" where
  "expand_nodes x untrimmed = map (\<lambda>kv. (fst kv, expand_node x (snd kv))) untrimmed"

text \<open>
  Modelled from the spec: what \<^verbatim>\<open>self.trim_dict(untrimmed)\<close> returns for an untrimmed mapping
  that holds nested nodes: the nodes are serialised, then the trim step runs.
\<close>

definition serialize :: "ext \<Rightarrow> pydict \<Rightarrow> pydict" where
  "serialize x untrimmed = trim_dict (expand_nodes x untrimmed)"


section \<open>AxisMarker\<close>

text \<open>The three slots \<^verbatim>\<open>_animation\<close>, \<^verbatim>\<open>_color\<close> and \<^verbatim>\<open>_width\<close> of an \<^verbatim>\<open>AxisMarker\<close>.\<close>

record AxisMarker =
  am_animation :: pyval
  am_color :: pyval
  am_width :: pyval

definition AxisMarker_animation :: "ext \<Rightarrow> pyval \<Rightarrow> error + pyval" where
  "AxisMarker_animation x value =
     (if value = VBool False then Inr (VBool False)
      else validate_types (node_from_dict x ''AnimationOptions'') ''AnimationOptions'' False value)"

definition AxisMarker_color :: "ext \<Rightarrow> pyval \<Rightarrow> error + pyval" where
  "AxisMarker_color = color_setter"

definition AxisMarker_width :: "ext \<Rightarrow> pyval \<Rightarrow> error + pyval" where
  "AxisMarker_width x value = v_numeric x value True"

text \<open>
  \<^verbatim>\<open>AxisMarker.__init__(**kwargs)\<close>: each slot is assigned through its setter, in the
  order of the source; \<^verbatim>\<open>kwargs.pop(key, None)\<close> reads the keyword or its default.
\<close>

definition AxisMarker_init :: "ext \<Rightarrow> pydict \<Rightarrow> error + AxisMarker" where
  "AxisMarker_init x kwargs =
     bind (AxisMarker_animation x (dict_get kwargs ''animation'' VNone)) (\<lambda>a.
     bind (AxisMarker_color x (dict_get kwargs ''color'' VNone)) (\<lambda>c.
     bind (AxisMarker_width x (dict_get kwargs ''width'' VNone)) (\<lambda>w.
     Inr \<lparr>am_animation = a, am_color = c, am_width = w\<rparr>)))"

text \<open>
  \<^verbatim>\<open>AxisMarker.from_dict(as_dict)\<close> pops the three external keys from its argument and
  calls the constructor. The model returns the dictionary the call leaves behind in the
  caller's hands together with the result.
\<close>

definition AxisMarker_from_dict :: "ext \<Rightarrow> pydict \<Rightarrow> pydict \<times> (error + AxisMarker)" where
  "AxisMarker_from_dict x as_dict =
     (let (animation, d1) = dict_pop as_dict ''animation'' VNone;
          (color, d2) = dict_pop d1 ''color'' VNone;
          (width, d3) = dict_pop d2 ''width'' VNone;
          kwargs = [(''animation'', animation), (''color'', color), (''width'', width)]
      in (d3, AxisMarker_init x kwargs))"

definition AxisMarker_to_untrimmed_dict :: "AxisMarker \<Rightarrow> pydict" where
  "AxisMarker_to_untrimmed_dict self =
     [(''animation'', am_animation self), (''color'', am_color self), (''width'', am_width self)]"

text \<open>
  Modelled from the spec: \<^verbatim>\<open>AxisMarker\<close> inherits \<^verbatim>\<open>to_dict\<close> from \<^verbatim>\<open>HighchartsMeta\<close>, which is not
  part of the sources at hand. The spec says: \<^verbatim>\<open>to_dict(node) = trim(to_untrimmed_dict(node))\<close>,
  with nested nodes serialised.
\<close>

definition AxisMarker_to_dict :: "ext \<Rightarrow> AxisMarker \<Rightarrow> pydict" where
  "AxisMarker_to_dict x self = serialize x (AxisMarker_to_untrimmed_dict self)"


section \<open>PaneBackground\<close>

record PaneBackground =
  pb_background_color :: pyval
  pb_border_color :: pyval
  pb_border_width :: pyval
  pb_class_name :: pyval
  pb_inner_radius :: pyval
  pb_outer_radius :: pyval
  pb_shape :: pyval

text \<open>
  \<^verbatim>\<open>try: ... except ValueError: ...\<close>: the handler runs when the body raises an error that
  \<^verbatim>\<open>except ValueError\<close> catches; any other error propagates.
\<close>

definition try_except_ValueError :: "error + 'a \<Rightarrow> error + 'a \<Rightarrow> error + 'a" where
  "try_except_ValueError body handler =
     (case body of Inr r \<Rightarrow> Inr r | Inl e \<Rightarrow> if is_ValueError e then handler else Inl e)"

text \<open>\<^verbatim>\<open>str.lower()\<close> on ASCII letters, and the string held by a string value.\<close>

definition lower_char :: "char \<Rightarrow> char" where
  "lower_char c =
     (let n = (of_char c :: nat) in if 65 \<le> n \<and> n \<le> 90 then char_of (n + 32) else c)"

definition str_lower :: "string \<Rightarrow> string" where
  "str_lower s = map lower_char s"

fun the_str :: "pyval \<Rightarrow> string" where
  "the_str (VStr s) = s"
| "the_str v = []"

text \<open>\<^verbatim>\<open>constants.DEFAULT_PANE_BACKGROUND.get(key)\<close>.\<close>

definition default_pane_background :: "ext \<Rightarrow> string \<Rightarrow> pyval" where
  "default_pane_background x key = dict_get (DEFAULT_PANE_BACKGROUND x) key VNone"

definition PaneBackground_background_color :: "ext \<Rightarrow> pyval \<Rightarrow> error + pyval" where
  "PaneBackground_background_color = color_setter"

definition PaneBackground_border_color :: "ext \<Rightarrow> pyval \<Rightarrow> error + pyval" where
  "PaneBackground_border_color = color_setter"

definition PaneBackground_border_width :: "ext \<Rightarrow> pyval \<Rightarrow> error + pyval" where
  "PaneBackground_border_width x value = v_numeric x value True"

definition PaneBackground_class_name :: "pyval \<Rightarrow> error + pyval" where
  "PaneBackground_class_name value = v_string value True"

definition PaneBackground_inner_radius :: "ext \<Rightarrow> pyval \<Rightarrow> error + pyval" where
  "PaneBackground_inner_radius x value =
     (if value = VNone \<or> value = VStr [] then Inr VNone
      else try_except_ValueError (v_string value True) (v_numeric x value True))"

definition PaneBackground_outer_radius :: "ext \<Rightarrow> pyval \<Rightarrow> error + pyval" where
  "PaneBackground_outer_radius x value =
     (if value = VNone \<or> value = VStr [] then Inr VNone
      else try_except_ValueError (v_string value True) (v_numeric x value True))"

definition PaneBackground_shape :: "pyval \<Rightarrow> error + pyval" where
  "PaneBackground_shape value =
     (if \<not> truthy value then Inr VNone
      else bind (v_string value False) (\<lambda>v.
        let l = str_lower (the_str v) in
        if l \<notin> set [''circle'', ''solid'', ''arc''] then Inl (HighchartsValueError (VStr l))
        else Inr (VStr l)))"

text \<open>
  \<^verbatim>\<open>PaneBackground.__init__(**kwargs)\<close>: a keyword that is absent falls back to the entry of
  \<^verbatim>\<open>DEFAULT_PANE_BACKGROUND\<close>; every value, given or default, goes through the slot's setter.
\<close>

definition PaneBackground_init :: "ext \<Rightarrow> pydict \<Rightarrow> error + PaneBackground" where
  "PaneBackground_init x kwargs =
     bind (PaneBackground_background_color x
             (dict_get kwargs ''background_color'' (default_pane_background x ''background_color''))) (\<lambda>bg.
     bind (PaneBackground_border_color x
             (dict_get kwargs ''border_color'' (default_pane_background x ''border_color''))) (\<lambda>bc.
     bind (PaneBackground_border_width x
             (dict_get kwargs ''border_width'' (default_pane_background x ''border_width''))) (\<lambda>bw.
     bind (PaneBackground_class_name
             (dict_get kwargs ''class_name'' (default_pane_background x ''class_name''))) (\<lambda>cn.
     bind (PaneBackground_inner_radius x
             (dict_get kwargs ''inner_radius'' (default_pane_background x ''inner_radius''))) (\<lambda>ir.
     bind (PaneBackground_outer_radius x
             (dict_get kwargs ''outer_radius'' (default_pane_background x ''outer_radius''))) (\<lambda>orad.
     bind (PaneBackground_shape
             (dict_get kwargs ''shape'' (default_pane_background x ''shape''))) (\<lambda>sh.
     Inr \<lparr>pb_background_color = bg, pb_border_color = bc, pb_border_width = bw,
          pb_class_name = cn, pb_inner_radius = ir, pb_outer_radius = orad,
          pb_shape = sh\<rparr>)))))))"

text \<open>
  \<^verbatim>\<open>PaneBackground.from_dict(as_dict)\<close> pops each external key from its argument, with the
  entry of \<^verbatim>\<open>DEFAULT_PANE_BACKGROUND\<close> as the default, and calls the constructor.
\<close>

definition PaneBackground_from_dict :: "ext \<Rightarrow> pydict \<Rightarrow> pydict \<times> (error + PaneBackground)" where
  "PaneBackground_from_dict x as_dict =
     (let (background_color, d1) =
            dict_pop as_dict ''backgroundColor'' (default_pane_background x ''background_color'');
          (border_color, d2) =
            dict_pop d1 ''borderColor'' (default_pane_background x ''border_color'');
          (border_width, d3) =
            dict_pop d2 ''borderWidth'' (default_pane_background x ''border_width'');
          (class_name, d4) =
            dict_pop d3 ''className'' (default_pane_background x ''class_name'');
          (inner_radius, d5) =
            dict_pop d4 ''innerRadius'' (default_pane_background x ''inner_radius'');
          (outer_radius, d6) =
            dict_pop d5 ''outerRadius'' (default_pane_background x ''outer_radius'');
          (shape, d7) = dict_pop d6 ''shape'' (default_pane_background x ''shape'');
          kwargs = [(''background_color'', background_color), (''border_color'', border_color),
                    (''border_width'', border_width), (''class_name'', class_name),
                    (''inner_radius'', inner_radius), (''outer_radius'', outer_radius),
                    (''shape'', shape)]
      in (d7, PaneBackground_init x kwargs))"

text \<open>
  \<^verbatim>\<open>PaneBackground.to_dict\<close> (pane.py, lines 247 to 258) builds the untrimmed mapping from the
  slots and returns \<^verbatim>\<open>self.trim_dict(untrimmed)\<close>.
\<close>

definition PaneBackground_to_dict :: "ext \<Rightarrow> PaneBackground \<Rightarrow> pydict" where
  "PaneBackground_to_dict x self =
     serialize x
       [(''backgroundColor'', pb_background_color self), (''borderColor'', pb_border_color self),
        (''borderWidth'', pb_border_width self), (''className'', pb_class_name self),
        (''innerRadius'', pb_inner_radius self), (''outerRadius'', pb_outer_radius self),
        (''shape'', pb_shape self)]"


section \<open>GenericTypeOptions\<close>

text \<open>
  More validators of the external package, by their documented contract.
  \<^verbatim>\<open>validators.float\<close> is \<^verbatim>\<open>validators.numeric\<close> followed by \<^verbatim>\<open>float(...)\<close>;
  \<^verbatim>\<open>validators.integer\<close> is \<^verbatim>\<open>validators.numeric\<close> followed by a check that the number is
  whole; \<^verbatim>\<open>validators.dict\<close> accepts a dictionary or a JSON string that denotes one;
  \<^verbatim>\<open>validators.iterable\<close> accepts a list or a dictionary (iterated by its keys) and
  rejects strings and numbers; \<^verbatim>\<open>checkers.is_iterable\<close> is its boolean form.
\<close>

definition to_float :: "pyval \<Rightarrow> pyval" where
  "to_float v = (if v = VNone then VNone else VFloat (num_of v))"

definition v_float :: "ext \<Rightarrow> pyval \<Rightarrow> bool \<Rightarrow> real option \<Rightarrow> real option \<Rightarrow> error + pyval" where
  "v_float x value allow_empty minimum maximum =
     bind (v_numeric_bounded x value allow_empty minimum maximum) (\<lambda>v. Inr (to_float v))"

definition to_integer :: "pyval \<Rightarrow> error + pyval" where
  "to_integer v =
     (case v of
        VFloat r \<Rightarrow> if r = real_of_int \<lfloor>r\<rfloor> then Inr (VInt \<lfloor>r\<rfloor>) else Inl NotAnIntegerError
      | _ \<Rightarrow> Inr v)"

definition v_integer :: "ext \<Rightarrow> pyval \<Rightarrow> bool \<Rightarrow> real option \<Rightarrow> real option \<Rightarrow> error + pyval" where
  "v_integer x value allow_empty minimum maximum =
     bind (v_numeric_bounded x value allow_empty minimum maximum) to_integer"

definition v_dict :: "ext \<Rightarrow> pyval \<Rightarrow> bool \<Rightarrow> error + pyval" where
  "v_dict x value allow_empty =
     (if \<not> truthy value \<and> \<not> allow_empty then Inl EmptyValueError
      else if \<not> truthy value then Inr VNone
      else (case value of
              VStr s \<Rightarrow> bind (dict_of_json x s) (\<lambda>d. Inr (VDict d))
            | VDict d \<Rightarrow> Inr (VDict d)
            | _ \<Rightarrow> Inl NotADictError))"

definition v_iterable :: "pyval \<Rightarrow> error + pyval list" where
  "v_iterable value =
     (if \<not> truthy value then Inl EmptyValueError
      else (case value of
              VList vs \<Rightarrow> Inr vs
            | VDict d \<Rightarrow> Inr (map (\<lambda>kv. VStr (fst kv)) d)
            | _ \<Rightarrow> Inl NotAnIterableError))"

fun is_iterable :: "pyval \<Rightarrow> bool" where
  "is_iterable (VList vs) = True"
| "is_iterable (VDict d) = True"
| "is_iterable v = False"

text \<open>\<^verbatim>\<open>[validators.string(x) for x in xs]\<close>: the first element that is rejected raises.\<close>

fun v_strings :: "pyval list \<Rightarrow> error + pyval list" where
  "v_strings [] = Inr []"
| "v_strings (v # vs) =
     bind (v_string v False) (\<lambda>s. bind (v_strings vs) (\<lambda>ss. Inr (s # ss)))"

text \<open>\<^verbatim>\<open>bool(value)\<close> and \<^verbatim>\<open>value or dflt\<close>.\<close>

definition py_bool :: "pyval \<Rightarrow> error + pyval" where
  "py_bool value = Inr (VBool (truthy value))"

definition py_or :: "pyval \<Rightarrow> pyval \<Rightarrow> pyval" where
  "py_or v dflt = (if truthy v then v else dflt)"

text \<open>The setters of \<^verbatim>\<open>GenericTypeOptions\<close>, in the order of the source.\<close>

definition GenericTypeOptions_accessibility :: "ext \<Rightarrow> pyval \<Rightarrow> error + pyval" where
  "GenericTypeOptions_accessibility x value = class_sensitive x ''TypeOptionsAccessibility'' value"

definition GenericTypeOptions_allow_point_select :: "pyval \<Rightarrow> error + pyval" where
  "GenericTypeOptions_allow_point_select value = py_bool value"

definition GenericTypeOptions_animation :: "ext \<Rightarrow> pyval \<Rightarrow> error + pyval" where
  "GenericTypeOptions_animation x value = class_sensitive x ''AnimationOptions'' value"

definition GenericTypeOptions_class_name :: "pyval \<Rightarrow> error + pyval" where
  "GenericTypeOptions_class_name value = v_string value True"

definition GenericTypeOptions_clip :: "pyval \<Rightarrow> error + pyval" where
  "GenericTypeOptions_clip value = py_bool value"

definition GenericTypeOptions_color :: "ext \<Rightarrow> pyval \<Rightarrow> error + pyval" where
  "GenericTypeOptions_color = color_setter"

definition GenericTypeOptions_cursor :: "ext \<Rightarrow> pyval \<Rightarrow> error + pyval" where
  "GenericTypeOptions_cursor x value =
     (if \<not> truthy value then Inr VNone
      else bind (v_string value False) (\<lambda>v.
        let l = str_lower (the_str v) in
        if l \<notin> set (SUPPORTED_CURSOR_VALUES x) then Inl (HighchartsValueError (VStr l))
        else Inr (VStr l)))"

definition GenericTypeOptions_custom :: "ext \<Rightarrow> pyval \<Rightarrow> error + pyval" where
  "GenericTypeOptions_custom x value =
     bind (v_dict x value True) (\<lambda>v. Inr (py_or v (VDict [])))"

definition GenericTypeOptions_dash_style :: "ext \<Rightarrow> pyval \<Rightarrow> error + pyval" where
  "GenericTypeOptions_dash_style x value =
     (if \<not> truthy value then Inr VNone
      else bind (v_string value False) (\<lambda>v.
        if the_str v \<notin> set (SUPPORTED_DASH_STYLE_VALUES x) then Inl (HighchartsValueError v)
        else Inr v))"

definition GenericTypeOptions_data_labels :: "ext \<Rightarrow> pyval \<Rightarrow> error + pyval" where
  "GenericTypeOptions_data_labels x value =
     (if \<not> truthy value then Inr VNone
      else if is_iterable value then
        validate_types (node_from_dict x ''DataLabel'') ''DataLabel'' True value
      else validate_types (node_from_dict x ''DataLabel'') ''DataLabel'' False value)"

definition GenericTypeOptions_description :: "pyval \<Rightarrow> error + pyval" where
  "GenericTypeOptions_description value = v_string value True"

definition GenericTypeOptions_enable_mouse_tracking :: "pyval \<Rightarrow> error + pyval" where
  "GenericTypeOptions_enable_mouse_tracking value = py_bool value"

definition GenericTypeOptions_events :: "ext \<Rightarrow> pyval \<Rightarrow> error + pyval" where
  "GenericTypeOptions_events x value = class_sensitive x ''SeriesEvents'' value"

definition GenericTypeOptions_include_in_data_export :: "pyval \<Rightarrow> error + pyval" where
  "GenericTypeOptions_include_in_data_export value = py_bool value"

definition GenericTypeOptions_keys :: "pyval \<Rightarrow> error + pyval" where
  "GenericTypeOptions_keys value =
     (if \<not> truthy value then Inr VNone
      else bind (v_iterable value) (\<lambda>vs. bind (v_strings vs) (\<lambda>ss. Inr (VList ss))))"

definition GenericTypeOptions_label :: "ext \<Rightarrow> pyval \<Rightarrow> error + pyval" where
  "GenericTypeOptions_label x value = class_sensitive x ''SeriesLabel'' value"

definition GenericTypeOptions_linked_to :: "pyval \<Rightarrow> error + pyval" where
  "GenericTypeOptions_linked_to value = v_string value True"

definition GenericTypeOptions_marker :: "ext \<Rightarrow> pyval \<Rightarrow> error + pyval" where
  "GenericTypeOptions_marker x value = class_sensitive x ''Marker'' value"

definition GenericTypeOptions_on_point :: "ext \<Rightarrow> pyval \<Rightarrow> error + pyval" where
  "GenericTypeOptions_on_point x value = class_sensitive x ''OnPointOptions'' value"

definition GenericTypeOptions_opacity :: "ext \<Rightarrow> pyval \<Rightarrow> error + pyval" where
  "GenericTypeOptions_opacity x value = v_float x value True (Some 0) (Some 1)"

definition GenericTypeOptions_point :: "ext \<Rightarrow> pyval \<Rightarrow> error + pyval" where
  "GenericTypeOptions_point x value = class_sensitive x ''Point'' value"

definition GenericTypeOptions_point_description_formatter :: "pyval \<Rightarrow> error + pyval" where
  "GenericTypeOptions_point_description_formatter value = v_string value True"

definition GenericTypeOptions_selected :: "pyval \<Rightarrow> error + pyval" where
  "GenericTypeOptions_selected value = py_bool value"

definition GenericTypeOptions_show_in_legend :: "pyval \<Rightarrow> error + pyval" where
  "GenericTypeOptions_show_in_legend value = py_bool value"

definition GenericTypeOptions_skip_keyboard_navigation :: "pyval \<Rightarrow> error + pyval" where
  "GenericTypeOptions_skip_keyboard_navigation value = py_bool value"

definition GenericTypeOptions_states :: "ext \<Rightarrow> pyval \<Rightarrow> error + pyval" where
  "GenericTypeOptions_states x value = class_sensitive x ''States'' value"

definition GenericTypeOptions_sticky_tracking :: "pyval \<Rightarrow> error + pyval" where
  "GenericTypeOptions_sticky_tracking value = py_bool value"

definition GenericTypeOptions_threshold :: "ext \<Rightarrow> pyval \<Rightarrow> error + pyval" where
  "GenericTypeOptions_threshold x value =
     (if value = EnforcedNull x then Inr (EnforcedNull x)
      else bind (v_numeric x value True) (\<lambda>v. Inr (py_or v (VInt 0))))"

definition GenericTypeOptions_tooltip :: "ext \<Rightarrow> pyval \<Rightarrow> error + pyval" where
  "GenericTypeOptions_tooltip x value = class_sensitive x ''Tooltip'' value"

definition GenericTypeOptions_turbo_threshold :: "ext \<Rightarrow> pyval \<Rightarrow> error + pyval" where
  "GenericTypeOptions_turbo_threshold x value =
     (if \<not> truthy value then Inr (VInt 0)
      else bind (v_integer x value True (Some 0) None) (\<lambda>v. Inr (py_or v (VInt 0))))"

definition GenericTypeOptions_visible :: "pyval \<Rightarrow> error + pyval" where
  "GenericTypeOptions_visible value = py_bool value"

text \<open>
  The properties the class declares, each with its setter. \<^verbatim>\<open>show_checkbox\<close> (generic.py,
  lines 579 to 591) is declared with a getter only: it has no setter.
\<close>

definition GenericTypeOptions_properties ::
    "ext \<Rightarrow> (string \<times> (pyval \<Rightarrow> error + pyval) option) list" where
  "GenericTypeOptions_properties x =
     [(''accessibility'', Some (GenericTypeOptions_accessibility x)),
      (''allow_point_select'', Some GenericTypeOptions_allow_point_select),
      (''animation'', Some (GenericTypeOptions_animation x)),
      (''class_name'', Some GenericTypeOptions_class_name),
      (''clip'', Some GenericTypeOptions_clip),
      (''color'', Some (GenericTypeOptions_color x)),
      (''cursor'', Some (GenericTypeOptions_cursor x)),
      (''custom'', Some (GenericTypeOptions_custom x)),
      (''dash_style'', Some (GenericTypeOptions_dash_style x)),
      (''data_labels'', Some (GenericTypeOptions_data_labels x)),
      (''description'', Some GenericTypeOptions_description),
      (''enable_mouse_tracking'', Some GenericTypeOptions_enable_mouse_tracking),
      (''events'', Some (GenericTypeOptions_events x)),
      (''include_in_data_export'', Some GenericTypeOptions_include_in_data_export),
      (''keys'', Some GenericTypeOptions_keys),
      (''label'', Some (GenericTypeOptions_label x)),
      (''linked_to'', Some GenericTypeOptions_linked_to),
      (''marker'', Some (GenericTypeOptions_marker x)),
      (''on_point'', Some (GenericTypeOptions_on_point x)),
      (''opacity'', Some (GenericTypeOptions_opacity x)),
      (''point'', Some (GenericTypeOptions_point x)),
      (''point_description_formatter'', Some GenericTypeOptions_point_description_formatter),
      (''selected'', Some GenericTypeOptions_selected),
      (''show_checkbox'', None),
      (''show_in_legend'', Some GenericTypeOptions_show_in_legend),
      (''skip_keyboard_navigation'', Some GenericTypeOptions_skip_keyboard_navigation),
      (''states'', Some (GenericTypeOptions_states x)),
      (''sticky_tracking'', Some GenericTypeOptions_sticky_tracking),
      (''threshold'', Some (GenericTypeOptions_threshold x)),
      (''tooltip'', Some (GenericTypeOptions_tooltip x)),
      (''turbo_threshold'', Some (GenericTypeOptions_turbo_threshold x)),
      (''visible'', Some GenericTypeOptions_visible)]"

text \<open>
  An instance of this class is its attribute dictionary: the private slot \<^verbatim>\<open>_name\<close> of each
  property. \<^verbatim>\<open>self.name = value\<close> on a property runs the property's setter and stores its
  result in the slot; on a property without a setter Python raises \<open>AttributeError\<close>.
\<close>

definition dict_set :: "pydict \<Rightarrow> string \<Rightarrow> pyval \<Rightarrow> pydict" where
  "dict_set d k v =
     (if has_key d k then map (\<lambda>kv. if fst kv = k then (k, v) else kv) d else d @ [(k, v)])"

definition setattr ::
    "(string \<times> (pyval \<Rightarrow> error + pyval) option) list \<Rightarrow> pydict \<Rightarrow> string \<Rightarrow> pyval
      \<Rightarrow> error + pydict" where
  "setattr properties self name value =
     (case map_of properties name of
        Some (Some fset) \<Rightarrow> bind (fset value) (\<lambda>v. Inr (dict_set self (CHR ''_'' # name) v))
      | Some None \<Rightarrow> Inl (AttributeError name)
      | None \<Rightarrow> Inr (dict_set self name value))"

text \<open>
  \<^verbatim>\<open>GenericTypeOptions.__init__(**kwargs)\<close>: lines 28 to 59 set every private slot to
  \<open>None\<close>; lines 61 to 92 assign each property, in this order, the keyword or this default.
\<close>

definition GenericTypeOptions_init_defaults :: "(string \<times> pyval) list" where
  "GenericTypeOptions_init_defaults =
     [(''accessibility'', VNone), (''allow_point_select'', VBool False), (''animation'', VNone),
      (''class_name'', VNone), (''clip'', VBool True), (''color'', VNone), (''cursor'', VNone),
      (''custom'', VNone), (''dash_style'', VNone), (''data_labels'', VNone),
      (''description'', VNone), (''enable_mouse_tracking'', VBool True), (''events'', VNone),
      (''include_in_data_export'', VNone), (''keys'', VNone), (''label'', VNone),
      (''linked_to'', VNone), (''marker'', VNone), (''on_point'', VNone), (''opacity'', VNone),
      (''point'', VNone), (''point_description_formatter'', VNone), (''selected'', VBool False),
      (''show_checkbox'', VBool False), (''show_in_legend'', VNone),
      (''skip_keyboard_navigation'', VNone), (''states'', VNone), (''sticky_tracking'', VNone),
      (''threshold'', VNone), (''tooltip'', VNone), (''turbo_threshold'', VNone),
      (''visible'', VBool True)]"

definition GenericTypeOptions_empty_slots :: pydict where
  "GenericTypeOptions_empty_slots =
     map (\<lambda>nd. (CHR ''_'' # fst nd, VNone)) GenericTypeOptions_init_defaults"

definition init_assign ::
    "(string \<times> (pyval \<Rightarrow> error + pyval) option) list \<Rightarrow> pydict \<Rightarrow> error + pydict
      \<Rightarrow> string \<times> pyval \<Rightarrow> error + pydict" where
  "init_assign properties kwargs state nd =
     bind state (\<lambda>self. setattr properties self (fst nd) (dict_get kwargs (fst nd) (snd nd)))"

definition GenericTypeOptions_init :: "ext \<Rightarrow> pydict \<Rightarrow> error + pydict" where
  "GenericTypeOptions_init x kwargs =
     foldl (init_assign (GenericTypeOptions_properties x) kwargs)
       (Inr GenericTypeOptions_empty_slots) GenericTypeOptions_init_defaults"

text \<open>
  \<^verbatim>\<open>GenericTypeOptions._get_kwargs_from_dict(as_dict)\<close> pops each external key, with its
  default, from its argument; \<^verbatim>\<open>from_dict\<close> passes the keywords to the constructor. Each row
  is the keyword, the external key and the default. The dictionary the caller is left with
  is returned beside the result.
\<close>

definition GenericTypeOptions_external_keys :: "(string \<times> string \<times> pyval) list" where
  "GenericTypeOptions_external_keys =
     [(''accessibility'', ''accessibility'', VNone),
      (''allow_point_select'', ''allowPointSelect'', VBool False),
      (''animation'', ''animation'', VNone),
      (''class_name'', ''className'', VNone),
      (''clip'', ''clip'', VBool True),
      (''color'', ''color'', VNone),
      (''cursor'', ''cursor'', VNone),
      (''custom'', ''custom'', VNone),
      (''dash_style'', ''dashStyle'', VNone),
      (''data_labels'', ''dataLabels'', VNone),
      (''description'', ''description'', VNone),
      (''enable_mouse_tracking'', ''enableMouseTracking'', VBool True),
      (''events'', ''events'', VNone),
      (''include_in_data_export'', ''includeInDataExport'', VNone),
      (''keys'', ''keys'', VNone),
      (''label'', ''label'', VNone),
      (''linked_to'', ''linkedTo'', VNone),
      (''marker'', ''marker'', VNone),
      (''on_point'', ''onPoint'', VNone),
      (''opacity'', ''opacity'', VNone),
      (''point'', ''point'', VNone),
      (''point_description_formatter'', ''pointDescriptionFormatter'', VNone),
      (''selected'', ''selected'', VBool False),
      (''show_checkbox'', ''showCheckbox'', VBool False),
      (''show_in_legend'', ''showInLegend'', VNone),
      (''skip_keyboard_navigation'', ''skipKeyboardNavigation'', VNone),
      (''states'', ''states'', VNone),
      (''sticky_tracking'', ''stickyTracking'', VNone),
      (''threshold'', ''threshold'', VNone),
      (''tooltip'', ''tooltip'', VNone),
      (''turbo_threshold'', ''turboThreshold'', VNone),
      (''visible'', ''visible'', VBool True)]"

definition pop_kwarg :: "pydict \<times> pydict \<Rightarrow> string \<times> string \<times> pyval \<Rightarrow> pydict \<times> pydict" where
  "pop_kwarg st row =
     (let (v, d) = dict_pop (snd st) (fst (snd row)) (snd (snd row))
      in (fst st @ [(fst row, v)], d))"

definition GenericTypeOptions_get_kwargs_from_dict :: "pydict \<Rightarrow> pydict \<times> pydict" where
  "GenericTypeOptions_get_kwargs_from_dict as_dict =
     foldl pop_kwarg ([], as_dict) GenericTypeOptions_external_keys"

definition GenericTypeOptions_from_dict :: "ext \<Rightarrow> pydict \<Rightarrow> pydict \<times> (error + pydict)" where
  "GenericTypeOptions_from_dict x as_dict =
     (let (kwargs, d) = GenericTypeOptions_get_kwargs_from_dict as_dict
      in (d, GenericTypeOptions_init x kwargs))"


section \<open>Pane\<close>

record Pane =
  pane_background :: pyval
  pane_center :: pyval
  pane_end_angle :: pyval
  pane_inner_size :: pyval
  pane_size :: pyval
  pane_start_angle :: pyval

text \<open>
  The setters of \<^verbatim>\<open>Pane.inner_size\<close> (pane.py, lines 353 to 361) and \<^verbatim>\<open>Pane.size\<close> (lines 373 to
  381): the value to store, and the assignment \<^verbatim>\<open>self.size = value\<close> on a node.
\<close>

definition Pane_inner_size :: "ext \<Rightarrow> pyval \<Rightarrow> error + pyval" where
  "Pane_inner_size x value =
     (if \<not> truthy value then Inr VNone
      else try_except_ValueError (v_string value False) (v_numeric x value False))"

definition Pane_size :: "ext \<Rightarrow> pyval \<Rightarrow> error + pyval" where
  "Pane_size x value =
     (if \<not> truthy value then Inr VNone
      else try_except_ValueError (v_string value False) (v_numeric x value False))"

definition Pane_set_inner_size :: "ext \<Rightarrow> Pane \<Rightarrow> pyval \<Rightarrow> error + Pane" where
  "Pane_set_inner_size x self value =
     bind (Pane_inner_size x value) (\<lambda>v. Inr (self\<lparr>pane_inner_size := v\<rparr>))"

definition Pane_set_size :: "ext \<Rightarrow> Pane \<Rightarrow> pyval \<Rightarrow> error + Pane" where
  "Pane_set_size x self value =
     bind (Pane_size x value) (\<lambda>v. Inr (self\<lparr>pane_size := v\<rparr>))"

text \<open>\<^verbatim>\<open>Pane.to_dict\<close> (pane.py, lines 409 to 419) does the same with the slots of a pane.\<close>

definition Pane_to_dict :: "ext \<Rightarrow> Pane \<Rightarrow> pydict" where
  "Pane_to_dict x self =
     serialize x
       [(''background'', pane_background self), (''center'', pane_center self),
        (''endAngle'', pane_end_angle self), (''innerSize'', pane_inner_size self),
        (''size'', pane_size self), (''startAngle'', pane_start_angle self)]"


section \<open>Executing the module \<^verbatim>\<open>highcharts/pane.py\<close>\<close>

text \<open>
  Importing the module executes its two class statements in order, and a class statement
  executes the \<^verbatim>\<open>def\<close> statements of its body in order. A \<^verbatim>\<open>def\<close> evaluates its return
  annotation when it is executed (the file has no \<^verbatim>\<open>from __future__ import annotations\<close>;
  this is the behaviour of Python 3.10 to 3.13, the versions that accept \<^verbatim>\<open>int | float\<close>
  and evaluate annotations eagerly). The annotation expressions are names, \<^verbatim>\<open>a | b\<close>,
  subscriptions \<^verbatim>\<open>a[b]\<close> and calls \<^verbatim>\<open>a(b)\<close>.
\<close>

datatype expr =
    Name string
  | BitOr expr expr
  | Subscript expr expr
  | Call expr expr

datatype tyobj =
    TClass string
  | TSpecialForm string
  | TUnion tyobj tyobj
  | TAlias tyobj tyobj
  | TInstance string

text \<open>
  A name evaluates to what the module's namespace binds it to. A union of two type objects
  is a type object. Subscribing a special form of \<^verbatim>\<open>typing\<close> (\<^verbatim>\<open>Optional[...]\<close>, \<^verbatim>\<open>List[...]\<close>)
  gives an alias; calling one raises \<open>TypeError\<close> (\<^verbatim>\<open>Cannot instantiate typing.Optional\<close>).
  Calling a class gives an instance; any other call or subscription raises \<open>TypeError\<close>.
\<close>

fun eval_expr :: "(string \<times> tyobj) list \<Rightarrow> expr \<Rightarrow> error + tyobj" where
  "eval_expr ns (Name n) = (case map_of ns n of Some t \<Rightarrow> Inr t | None \<Rightarrow> Inl (NameError n))"
| "eval_expr ns (BitOr a b) =
     bind (eval_expr ns a) (\<lambda>ta. bind (eval_expr ns b) (\<lambda>tb. Inr (TUnion ta tb)))"
| "eval_expr ns (Subscript f a) =
     bind (eval_expr ns f) (\<lambda>tf. bind (eval_expr ns a) (\<lambda>ta.
       case tf of TSpecialForm n \<Rightarrow> Inr (TAlias tf ta) | _ \<Rightarrow> Inl TypeError))"
| "eval_expr ns (Call f a) =
     bind (eval_expr ns f) (\<lambda>tf. bind (eval_expr ns a) (\<lambda>ta.
       case tf of TClass n \<Rightarrow> Inr (TInstance n) | _ \<Rightarrow> Inl TypeError))"

text \<open>
  A class body: the \<^verbatim>\<open>def\<close> statements in source order, each with its return annotation if
  it has one. Executing the body stops at the first annotation that raises.
\<close>

fun exec_defs :: "(string \<times> tyobj) list \<Rightarrow> (string \<times> expr option) list \<Rightarrow> error + unit" where
  "exec_defs ns [] = Inr ()"
| "exec_defs ns ((name, None) # defs) = exec_defs ns defs"
| "exec_defs ns ((name, Some ann) # defs) =
     bind (eval_expr ns ann) (\<lambda>t. exec_defs ns defs)"

definition pane_module_namespace :: "(string \<times> tyobj) list" where
  "pane_module_namespace =
     [(''Optional'', TSpecialForm ''Optional''), (''List'', TSpecialForm ''List''),
      (''Decimal'', TClass ''Decimal''), (''HighchartsMeta'', TClass ''HighchartsMeta''),
      (''Gradient'', TClass ''Gradient''), (''Pattern'', TClass ''Pattern''),
      (''str'', TClass ''str''), (''int'', TClass ''int''), (''float'', TClass ''float'')]"

definition ann_color :: expr where
  "ann_color = Subscript (Name ''Optional'')
                 (BitOr (BitOr (Name ''str'') (Name ''Gradient'')) (Name ''Pattern''))"

definition ann_numeric :: expr where
  "ann_numeric = BitOr (BitOr (Name ''int'') (Name ''float'')) (Name ''Decimal'')"

definition PaneBackground_defs :: "(string \<times> expr option) list" where
  "PaneBackground_defs =
     [(''__init__'', None),
      (''background_color'', Some ann_color), (''background_color.setter'', None),
      (''border_color'', Some ann_color), (''border_color.setter'', None),
      (''border_width'', Some (Subscript (Name ''Optional'') ann_numeric)),
      (''border_width.setter'', None),
      (''class_name'', Some (Subscript (Name ''Optional'') (Name ''str''))),
      (''class_name.setter'', None),
      (''inner_radius'', Some (Subscript (Name ''Optional'') (BitOr ann_numeric (Name ''str'')))),
      (''inner_radius.setter'', None),
      (''outer_radius'', Some (Subscript (Name ''Optional'') (BitOr ann_numeric (Name ''str'')))),
      (''outer_radius.setter'', None),
      (''shape'', Some (Subscript (Name ''Optional'') (Name ''str''))), (''shape.setter'', None),
      (''from_dict'', None), (''to_dict'', None)]"

definition Pane_defs :: "(string \<times> expr option) list" where
  "Pane_defs =
     [(''__init__'', None),
      (''background'',
         Some (Subscript (Name ''Optional'') (Subscript (Name ''List'') (Name ''PaneBackground'')))),
      (''background.setter'', None),
      (''center'',
         Some (Subscript (Name ''Optional'')
                (Subscript (Name ''List'') (BitOr (Name ''str'') (Name ''int''))))),
      (''center.setter'', None),
      (''end_angle'', Some (Call (Name ''Optional'') ann_numeric)), (''end_angle.setter'', None),
      (''inner_size'', Some (Subscript (Name ''Optional'') (BitOr ann_numeric (Name ''str'')))),
      (''inner_size.setter'', None),
      (''size'', Some (Subscript (Name ''Optional'') (BitOr ann_numeric (Name ''str'')))),
      (''size.setter'', None),
      (''start_angle'', Some (Call (Name ''Optional'') ann_numeric)), (''start_angle.setter'', None),
      (''from_dict'', None), (''to_dict'', None)]"

text \<open>
  A class statement binds the class name once its body has run. Importing the module runs
  both class statements and gives the namespace they leave; a client's use of the module
  (\<^verbatim>\<open>from highcharts.pane import ...\<close> and then some operation on the classes) runs after that.
\<close>

definition exec_class ::
    "(string \<times> tyobj) list \<Rightarrow> string \<Rightarrow> (string \<times> expr option) list
      \<Rightarrow> error + (string \<times> tyobj) list" where
  "exec_class ns name defs = bind (exec_defs ns defs) (\<lambda>u. Inr (ns @ [(name, TClass name)]))"

definition import_pane_module :: "error + (string \<times> tyobj) list" where
  "import_pane_module =
     bind (exec_class pane_module_namespace ''PaneBackground'' PaneBackground_defs) (\<lambda>ns.
     exec_class ns ''Pane'' Pane_defs)"

definition after_import :: "(error + 'a) \<Rightarrow> error + 'a" where
  "after_import operation = bind import_pane_module (\<lambda>ns. operation)"


section \<open>Concrete collaborators and auxiliary notions\<close>

text \<open>
  One concrete choice of the collaborators, for evaluating the model at concrete inputs:
  \<^verbatim>\<open>float\<close> reads the text \<^verbatim>\<open>0.5\<close> only; no text parses as JSON (the parser's error is a
  \<open>ValueError\<close>); a \<^verbatim>\<open>from_dict\<close> factory or keyword constructor accepts every dictionary and
  keeps it as the state of the instance, and that dictionary is the instance's untrimmed
  mapping; the tables of defaults are empty.
\<close>

definition sample_ext :: ext where
  "sample_ext =
     \<lparr>float_of_str = (\<lambda>s. if s = ''0.5'' then Some (1 / 2) else None),
      dict_of_json = (\<lambda>s. Inl CannotCoerceError),
      Gradient_from_json_text = (\<lambda>s. Inl ValueError),
      Gradient_from_dict = (\<lambda>d. Inr (VDict d)),
      Gradient_init = (\<lambda>d. Inr (VDict d)),
      Pattern_from_json_text = (\<lambda>s. Inl ValueError),
      Pattern_from_dict = (\<lambda>d. Inr (VDict d)),
      Pattern_init = (\<lambda>d. Inr (VDict d)),
      node_from_dict = (\<lambda>cls d. Inr (VDict d)),
      node_to_untrimmed_dict = (\<lambda>cls p. kwargs_of p),
      DEFAULT_PANE_BACKGROUND = [],
      DEFAULT_PANE = [],
      SUPPORTED_CURSOR_VALUES = [''default'', ''pointer''],
      SUPPORTED_DASH_STYLE_VALUES = [''Dash'', ''Solid''],
      EnforcedNull = VObj ''EnforcedNullType'' VNone\<rparr>"

text \<open>
  What the trim step does to one entry: the entry is removed when its value is \<open>None\<close>, an
  empty sequence, or a mapping that trims to the empty mapping; otherwise it is kept, a
  nested mapping in its trimmed form.
\<close>

fun entry_removed :: "pyval \<Rightarrow> bool" where
  "entry_removed VNone = True"
| "entry_removed (VList xs) = (xs = [])"
| "entry_removed (VDict d) = (trim_dict d = [])"
| "entry_removed v = False"

fun trim_value :: "pyval \<Rightarrow> pyval" where
  "trim_value (VDict d) = VDict (trim_dict d)"
| "trim_value v = v"

text \<open>
  The keywords of the slots of a pane background that are set: what its \<^verbatim>\<open>to_dict\<close> keeps,
  under the constructor's keyword names.
\<close>

definition set_slots :: "PaneBackground \<Rightarrow> pydict" where
  "set_slots self =
     filter (\<lambda>kv. snd kv \<noteq> VNone)
       [(''background_color'', pb_background_color self), (''border_color'', pb_border_color self),
        (''border_width'', pb_border_width self), (''class_name'', pb_class_name self),
        (''inner_radius'', pb_inner_radius self), (''outer_radius'', pb_outer_radius self),
        (''shape'', pb_shape self)]"


text \<open>A value that is neither a sequence nor a mapping: every slot of an axis marker or of a
  pane background holds one. Among these values the nested nodes are the instances.\<close>

fun leaf :: "pyval \<Rightarrow> bool" where
  "leaf (VList vs) = False"
| "leaf (VDict d) = False"
| "leaf v = True"

fun is_node :: "pyval \<Rightarrow> bool" where
  "is_node (VObj c p) = True"
| "is_node v = False"

text \<open>
  A nested node comes back from its own serialisation: its trimmed mapping is not empty
  (the trim step removes an entry whose mapping trims to nothing, and the slot is then
  read back as unset), and the \<^verbatim>\<open>from_dict\<close> of its class turns that mapping into the state
  of the node again. A value that is not a node has nothing to re-parse.
\<close>

definition reparses :: "ext \<Rightarrow> pyval \<Rightarrow> bool" where
  "reparses x v =
     (case v of
        VObj c p \<Rightarrow>
          trim_dict (node_to_untrimmed_dict x c p) \<noteq> []
          \<and> node_from_dict x c (trim_dict (node_to_untrimmed_dict x c p)) = Inr p
      | _ \<Rightarrow> True)"

text \<open>
  The result of a round trip \<open>p'\<close> against the node \<open>p\<close> it started from: \<open>p'\<close> agrees with
  \<open>p\<close> on every slot that is set in \<open>p\<close>; and every slot that is unset in \<open>p\<close> holds in \<open>p'\<close>
  what the slot's setter makes of the entry of \<^verbatim>\<open>DEFAULT_PANE_BACKGROUND\<close>.
\<close>

definition same_where_set :: "PaneBackground \<Rightarrow> PaneBackground \<Rightarrow> bool" where
  "same_where_set p p' =
     ((pb_background_color p \<noteq> VNone \<longrightarrow> pb_background_color p' = pb_background_color p)
      \<and> (pb_border_color p \<noteq> VNone \<longrightarrow> pb_border_color p' = pb_border_color p)
      \<and> (pb_border_width p \<noteq> VNone \<longrightarrow> pb_border_width p' = pb_border_width p)
      \<and> (pb_class_name p \<noteq> VNone \<longrightarrow> pb_class_name p' = pb_class_name p)
      \<and> (pb_inner_radius p \<noteq> VNone \<longrightarrow> pb_inner_radius p' = pb_inner_radius p)
      \<and> (pb_outer_radius p \<noteq> VNone \<longrightarrow> pb_outer_radius p' = pb_outer_radius p)
      \<and> (pb_shape p \<noteq> VNone \<longrightarrow> pb_shape p' = pb_shape p))"

definition unset_from_defaults :: "ext \<Rightarrow> PaneBackground \<Rightarrow> PaneBackground \<Rightarrow> bool" where
  "unset_from_defaults x p p' =
     ((pb_background_color p = VNone \<longrightarrow>
         PaneBackground_background_color x (default_pane_background x ''background_color'')
           = Inr (pb_background_color p'))
      \<and> (pb_border_color p = VNone \<longrightarrow>
         PaneBackground_border_color x (default_pane_background x ''border_color'')
           = Inr (pb_border_color p'))
      \<and> (pb_border_width p = VNone \<longrightarrow>
         PaneBackground_border_width x (default_pane_background x ''border_width'')
           = Inr (pb_border_width p'))
      \<and> (pb_class_name p = VNone \<longrightarrow>
         PaneBackground_class_name (default_pane_background x ''class_name'')
           = Inr (pb_class_name p'))
      \<and> (pb_inner_radius p = VNone \<longrightarrow>
         PaneBackground_inner_radius x (default_pane_background x ''inner_radius'')
           = Inr (pb_inner_radius p'))
      \<and> (pb_outer_radius p = VNone \<longrightarrow>
         PaneBackground_outer_radius x (default_pane_background x ''outer_radius'')
           = Inr (pb_outer_radius p'))
      \<and> (pb_shape p = VNone \<longrightarrow>
         PaneBackground_shape (default_pane_background x ''shape'') = Inr (pb_shape p')))"

text \<open>A slot's value, or the default where the slot is unset; and the keywords of a pane
  background with every unset slot filled from \<^verbatim>\<open>DEFAULT_PANE_BACKGROUND\<close>.\<close>

definition or_default :: "pyval \<Rightarrow> pyval \<Rightarrow> pyval" where
  "or_default v dflt = (if v = VNone then dflt else v)"

definition slots_with_defaults :: "ext \<Rightarrow> PaneBackground \<Rightarrow> pydict" where
  "slots_with_defaults x p =
     [(''background_color'',
         or_default (pb_background_color p) (default_pane_background x ''background_color'')),
      (''border_color'',
         or_default (pb_border_color p) (default_pane_background x ''border_color'')),
      (''border_width'',
         or_default (pb_border_width p) (default_pane_background x ''border_width'')),
      (''class_name'', or_default (pb_class_name p) (default_pane_background x ''class_name'')),
      (''inner_radius'',
         or_default (pb_inner_radius p) (default_pane_background x ''inner_radius'')),
      (''outer_radius'',
         or_default (pb_outer_radius p) (default_pane_background x ''outer_radius'')),
      (''shape'', or_default (pb_shape p) (default_pane_background x ''shape''))]"


section \<open>Basic facts\<close>

lemma bind_Inl [simp]: "bind (Inl e) f = Inl e"
  by (simp add: bind_def)

lemma bind_Inr [simp]: "bind (Inr v) f = f v"
  by (simp add: bind_def)

lemma bind_eq_Inr: "bind m f = Inr r \<longleftrightarrow> (\<exists>v. m = Inr v \<and> f v = Inr r)"
  by (cases m) simp_all

lemma has_key_iff: "has_key d k = (k \<in> fst ` set d)"
  by (simp add: has_key_def map_of_eq_None_iff)

lemma dict_get_Cons:
  "dict_get ((k', v) # d) k dflt = (if k = k' then v else dict_get d k dflt)"
  by (simp add: dict_get_def)

lemma dict_get_filter_other:
  "k \<noteq> k' \<Longrightarrow> dict_get (filter (\<lambda>kv. fst kv \<noteq> k') d) k dflt = dict_get d k dflt"
  by (induction d) (auto simp: dict_get_def)

lemma dict_pop_fst [simp]: "fst (dict_pop d k dflt) = dict_get d k dflt"
  by (simp add: dict_pop_def)

lemma dict_get_pop_other:
  "k \<noteq> k' \<Longrightarrow> dict_get (snd (dict_pop d k' dflt')) k dflt = dict_get d k dflt"
  by (simp add: dict_pop_def dict_get_filter_other)

lemma dict_get_set_entries:
  assumes "distinct (map fst u)" and "map_of u k = Some v"
  shows "dict_get (filter (\<lambda>kv. snd kv \<noteq> VNone) u) k dflt = or_default v dflt"
  using assms
proof (induction u)
  case Nil
  then show ?case by simp
next
  case (Cons kv u)
  show ?case
  proof (cases "k = fst kv")
    case True
    with Cons.prems have v: "snd kv = v" by (cases kv) simp
    from Cons.prems have "fst kv \<notin> fst ` set (filter (\<lambda>kv. snd kv \<noteq> VNone) u)"
      by auto
    then have "map_of (filter (\<lambda>kv. snd kv \<noteq> VNone) u) k = None"
      using True by (simp add: map_of_eq_None_iff)
    then show ?thesis using True v by (cases kv) (auto simp: dict_get_def or_default_def)
  next
    case False
    with Cons.prems have "map_of u k = Some v" by (cases kv) (simp split: if_splits)
    with Cons have "dict_get (filter (\<lambda>kv. snd kv \<noteq> VNone) u) k dflt = or_default v dflt"
      by simp
    then show ?thesis using False by (cases kv) (auto simp: dict_get_def)
  qed
qed


section \<open>Properties of the trim step\<close>

lemma trim_dict_filter_map:
  "trim_dict d =
     map (\<lambda>kv. (fst kv, trim_value (snd kv))) (filter (\<lambda>kv. \<not> entry_removed (snd kv)) d)"
  by (induction d rule: trim_dict.induct) (simp_all add: Let_def)

lemma has_key_trim_dict:
  "has_key (trim_dict d) k = (\<exists>v. (k, v) \<in> set d \<and> \<not> entry_removed v)"
  by (force simp: has_key_iff trim_dict_filter_map image_iff)

lemma dict_get_trim_dict:
  assumes "distinct (map fst d)" and "map_of d k = Some v"
  shows "dict_get (trim_dict d) k VNone = (if entry_removed v then VNone else trim_value v)"
  using assms unfolding trim_dict_filter_map
proof (induction d)
  case Nil
  then show ?case by simp
next
  case (Cons kv d)
  show ?case
  proof (cases "k = fst kv")
    case True
    with Cons.prems have v: "snd kv = v" by (cases kv) simp
    from Cons.prems True have "k \<notin> fst ` set d" by auto
    then have "map_of (map (\<lambda>kv. (fst kv, trim_value (snd kv)))
                 (filter (\<lambda>kv. \<not> entry_removed (snd kv)) d)) k = None"
      by (force simp: map_of_eq_None_iff)
    then show ?thesis using True v by (cases kv) (auto simp: dict_get_def)
  next
    case False
    with Cons.prems have "map_of d k = Some v" by (cases kv) (simp split: if_splits)
    with Cons have "dict_get (map (\<lambda>kv. (fst kv, trim_value (snd kv)))
                 (filter (\<lambda>kv. \<not> entry_removed (snd kv)) d)) k VNone
        = (if entry_removed v then VNone else trim_value v)"
      by simp
    then show ?thesis using False by (cases kv) (auto simp: dict_get_def)
  qed
qed

lemma trim_dict_leaf:
  "\<forall>kv \<in> set u. leaf (snd kv) \<Longrightarrow> trim_dict u = filter (\<lambda>kv. snd kv \<noteq> VNone) u"
  by (induction u rule: trim_dict.induct) auto

lemma expand_node_plain: "leaf v \<Longrightarrow> \<not> is_node v \<Longrightarrow> expand_node x v = v"
  by (cases v) simp_all

lemma serialize_plain:
  assumes "\<forall>kv \<in> set u. leaf (snd kv) \<and> \<not> is_node (snd kv)"
  shows "serialize x u = filter (\<lambda>kv. snd kv \<noteq> VNone) u"
proof -
  have "expand_nodes x u = u"
    unfolding expand_nodes_def using assms by (induction u) (simp_all add: expand_node_plain)
  then show ?thesis using assms by (simp add: serialize_def trim_dict_leaf)
qed

text \<open>
  C2. The trim step is idempotent: for every nested mapping \<open>x\<close>, whatever it contains
  (empty strings, empty sequences, empty mappings, \<open>False\<close>, \<open>0\<close>), trimming the trimmed
  mapping again changes nothing.
\<close>

theorem trim_dict_idempotent: "trim_dict (trim_dict x) = trim_dict x"
  by (induction x rule: trim_dict.induct) (simp_all add: Let_def)

text \<open>
  C7. An \<^verbatim>\<open>AxisMarker\<close> constructed with \<^verbatim>\<open>width=0.01, color=None\<close> holds the width and no
  colour or animation, and its \<^verbatim>\<open>to_dict\<close> is exactly \<^verbatim>\<open>{"width": 0.01}\<close>. In general the trim
  step removes exactly the entries whose value is \<open>None\<close>, an empty sequence or a mapping
  that trims to nothing, and keeps every other entry in order (a nested mapping in trimmed
  form); \<open>False\<close> and the numbers \<open>0\<close> and \<open>0.0\<close> are not among the removed values.
\<close>

theorem AxisMarker_end_to_end:
  "AxisMarker_init x [(''width'', VFloat (1 / 100)), (''color'', VNone)]
     = Inr \<lparr>am_animation = VNone, am_color = VNone, am_width = VFloat (1 / 100)\<rparr>
   \<and> AxisMarker_to_dict x \<lparr>am_animation = VNone, am_color = VNone, am_width = VFloat (1 / 100)\<rparr>
     = [(''width'', VFloat (1 / 100))]
   \<and> trim_dict d = map (\<lambda>kv. (fst kv, trim_value (snd kv)))
                      (filter (\<lambda>kv. \<not> entry_removed (snd kv)) d)
   \<and> \<not> entry_removed (VBool False) \<and> \<not> entry_removed (VInt 0) \<and> \<not> entry_removed (VFloat 0)"
proof -
  have init: "AxisMarker_init x [(''width'', VFloat (1 / 100)), (''color'', VNone)]
     = Inr \<lparr>am_animation = VNone, am_color = VNone, am_width = VFloat (1 / 100)\<rparr>"
    by (simp add: AxisMarker_init_def AxisMarker_animation_def AxisMarker_color_def
        AxisMarker_width_def dict_get_def validate_types_def color_setter_def v_numeric_def
        v_numeric_bounded_def coerce_numeric_def check_bounds_def)
  have ser: "AxisMarker_to_dict x
       \<lparr>am_animation = VNone, am_color = VNone, am_width = VFloat (1 / 100)\<rparr>
     = [(''width'', VFloat (1 / 100))]"
    by (simp add: AxisMarker_to_dict_def AxisMarker_to_untrimmed_dict_def serialize_def
        expand_nodes_def)
  show ?thesis using init ser trim_dict_filter_map by simp
qed


section \<open>The polymorphic colour setter\<close>

lemmas color_defs = AxisMarker_color_def PaneBackground_background_color_def
  PaneBackground_border_color_def GenericTypeOptions_color_def

lemma color_setter_plain_string:
  "s \<noteq> [] \<Longrightarrow> \<not> str_contains s ''linearGradient'' \<Longrightarrow>
   \<not> str_contains s ''patternOptions'' \<Longrightarrow>
   color_setter x (VStr s) = Inl (HighchartsValueError (VStr s))"
  by (simp add: color_setter_def)

text \<open>
  C3. The claim is that a plain colour string such as \<^verbatim>\<open>"#999999"\<close> is stored by every
  polymorphic colour slot. The setters do not do that: a non-empty string that contains
  neither \<^verbatim>\<open>linearGradient\<close> nor \<^verbatim>\<open>patternOptions\<close> reaches the final \<^verbatim>\<open>else\<close> and raises
  \<open>HighchartsValueError\<close>, for all three slots.
\<close>

theorem color_plain_string_raises:
  "AxisMarker_color x (VStr ''#999999'') = Inl (HighchartsValueError (VStr ''#999999''))
   \<and> PaneBackground_background_color x (VStr ''#999999'')
       = Inl (HighchartsValueError (VStr ''#999999''))
   \<and> GenericTypeOptions_color x (VStr ''#999999'')
       = Inl (HighchartsValueError (VStr ''#999999''))"
  by (simp add: color_defs color_setter_def)

lemma color_setter_falsy: "\<not> truthy v \<Longrightarrow> color_setter x v = Inr VNone"
  by (simp add: color_setter_def)

text \<open>
  A mapping never gets past \<^verbatim>\<open>from_json\<close>: the \<open>TypeError\<close> it raises is not a \<open>ValueError\<close>,
  so the handler with the fallback to \<^verbatim>\<open>from_dict\<close> does not run.
\<close>

lemma color_setter_gradient_dict:
  "has_key d ''linearGradient'' \<Longrightarrow> color_setter x (VDict d) = Inl TypeError"
  by (auto simp: color_setter_def Gradient_from_json_def has_key_def)

lemma color_setter_pattern_dict:
  "has_key d ''patternOptions'' \<Longrightarrow> \<not> has_key d ''linearGradient'' \<Longrightarrow>
   \<not> has_key d ''linear_gradient'' \<Longrightarrow>
   color_setter x (VDict d) = Inl TypeError"
  by (auto simp: color_setter_def Pattern_from_json_def has_key_def)

lemma color_setter_no_discriminator:
  "d \<noteq> [] \<Longrightarrow> \<not> has_key d ''linearGradient'' \<Longrightarrow> \<not> has_key d ''linear_gradient'' \<Longrightarrow>
   \<not> has_key d ''patternOptions'' \<Longrightarrow> \<not> has_key d ''pattern_options'' \<Longrightarrow>
   color_setter x (VDict d) = Inl (HighchartsValueError (VDict d))"
  by (simp add: color_setter_def)

text \<open>
  C4. The claim is that a mapping with the key \<^verbatim>\<open>linearGradient\<close> resolves to a \<open>Gradient\<close> and a
  mapping with the key \<^verbatim>\<open>patternOptions\<close> to a \<open>Pattern\<close>. The setters do not do that, for any
  of the four colour slots: the mapping is handed to \<^verbatim>\<open>from_json\<close>, which raises \<open>TypeError\<close>
  on a mapping; \<^verbatim>\<open>except ValueError\<close> does not catch it, the fallback to \<^verbatim>\<open>from_dict\<close> written
  in the handler is never reached, and the assignment raises \<open>TypeError\<close>. The rest of the
  claim holds: the empty string, the empty mapping and \<open>None\<close> leave the slot unset, and a
  non-empty mapping with none of the four discriminator keys raises
  \<open>HighchartsValueError\<close>, which reports the mapping.
\<close>

theorem color_mapping_raises:
  "\<forall>f \<in> set [AxisMarker_color, PaneBackground_background_color, PaneBackground_border_color,
              GenericTypeOptions_color].
     (has_key d1 ''linearGradient'' \<longrightarrow> f x (VDict d1) = Inl TypeError)
   \<and> (has_key d2 ''patternOptions'' \<and> \<not> has_key d2 ''linearGradient''
        \<and> \<not> has_key d2 ''linear_gradient'' \<longrightarrow>
        f x (VDict d2) = Inl TypeError)
   \<and> f x (VStr []) = Inr VNone \<and> f x (VDict []) = Inr VNone \<and> f x VNone = Inr VNone
   \<and> (d3 \<noteq> [] \<and> \<not> has_key d3 ''linearGradient'' \<and> \<not> has_key d3 ''linear_gradient''
        \<and> \<not> has_key d3 ''patternOptions'' \<and> \<not> has_key d3 ''pattern_options'' \<longrightarrow>
        f x (VDict d3) = Inl (HighchartsValueError (VDict d3)))"
  using color_setter_gradient_dict [of d1 x] color_setter_pattern_dict [of d2 x]
    color_setter_no_discriminator [of d3 x]
  by (simp add: color_defs color_setter_falsy)

theorem color_mapping_raises_witness:
  "AxisMarker_color sample_ext
      (VDict [(''linearGradient'', VDict [(''x1'', VInt 0), (''x2'', VInt 0)])])
     = Inl TypeError
   \<and> GenericTypeOptions_color sample_ext (VDict [(''patternOptions'', VDict [])])
     = Inl TypeError
   \<and> PaneBackground_border_color sample_ext (VStr []) = Inr VNone
   \<and> PaneBackground_background_color sample_ext (VDict [(''foo'', VStr ''bar'')])
     = Inl (HighchartsValueError (VDict [(''foo'', VStr ''bar'')]))"
  using color_mapping_raises [of "[(''linearGradient'', VDict [(''x1'', VInt 0), (''x2'', VInt 0)])]"
      sample_ext "[(''patternOptions'', VDict [])]" "[(''foo'', VStr ''bar'')]"]
  by (simp add: has_key_def)


section \<open>Numbers or percentage strings\<close>

text \<open>
  C5, as the code has it. Setting \<^verbatim>\<open>inner_radius\<close> to \<^verbatim>\<open>"50%"\<close> stores that string; setting it to
  \<open>None\<close> stores \<open>None\<close>; setting it to any string stores that string (\<open>None\<close> for the empty
  one), so \<^verbatim>\<open>"fifty"\<close> is stored and not rejected: the setter validates that the value is a
  string and has no check of its form.
\<close>

theorem inner_radius_cases:
  "PaneBackground_inner_radius x (VStr ''50%'') = Inr (VStr ''50%'')
   \<and> PaneBackground_inner_radius x VNone = Inr VNone
   \<and> PaneBackground_inner_radius x (VStr ''fifty'') = Inr (VStr ''fifty'')
   \<and> PaneBackground_inner_radius x (VStr s) = Inr (if s = [] then VNone else VStr s)"
  by (simp add: PaneBackground_inner_radius_def try_except_ValueError_def v_string_def)

text \<open>The claim says that \<^verbatim>\<open>"fifty"\<close> raises; it is stored.\<close>

theorem inner_radius_fifty_stored:
  "PaneBackground_inner_radius sample_ext (VStr ''fifty'') = Inr (VStr ''fifty'')"
  by (simp add: PaneBackground_inner_radius_def try_except_ValueError_def v_string_def)

text \<open>
  The number 50 is not stored. The string validator, tried first, rejects a number with
  \<open>CannotCoerceError\<close>, which is a \<open>TypeError\<close>; \<^verbatim>\<open>except ValueError\<close> does not catch it, so the
  numeric validator in the handler is never reached and the assignment raises. The same
  holds of \<^verbatim>\<open>outer_radius\<close>, and of every number but a falsy one.
\<close>

lemma radius_number_raises:
  "PaneBackground_inner_radius x (VInt 50) = Inl CannotCoerceError"
  "PaneBackground_outer_radius x (VInt 50) = Inl CannotCoerceError"
  "i \<noteq> 0 \<Longrightarrow> PaneBackground_inner_radius x (VInt i) = Inl CannotCoerceError"
  "r \<noteq> 0 \<Longrightarrow> PaneBackground_inner_radius x (VFloat r) = Inl CannotCoerceError"
  by (simp_all add: PaneBackground_inner_radius_def PaneBackground_outer_radius_def
      try_except_ValueError_def v_string_def)

text \<open>
  C10. The setters of \<^verbatim>\<open>Pane.size\<close> and \<^verbatim>\<open>Pane.inner_size\<close> store \<open>None\<close> for every falsy input.
  In particular assigning the number \<open>0\<close> leaves the slot unset, and the key of the slot
  (\<^verbatim>\<open>size\<close>, \<^verbatim>\<open>innerSize\<close>) is then absent from the output of \<^verbatim>\<open>to_dict\<close>.
\<close>

theorem pane_size_falsy_unset:
  "(\<not> truthy v \<longrightarrow> Pane_size x v = Inr VNone \<and> Pane_inner_size x v = Inr VNone)
   \<and> Pane_size x (VInt 0) = Inr VNone \<and> Pane_inner_size x (VInt 0) = Inr VNone
   \<and> Pane_set_size x self (VInt 0) = Inr (self\<lparr>pane_size := VNone\<rparr>)
   \<and> \<not> has_key (Pane_to_dict x (self\<lparr>pane_size := VNone\<rparr>)) ''size''
   \<and> Pane_set_inner_size x self (VInt 0) = Inr (self\<lparr>pane_inner_size := VNone\<rparr>)
   \<and> \<not> has_key (Pane_to_dict x (self\<lparr>pane_inner_size := VNone\<rparr>)) ''innerSize''"
  by (auto simp: Pane_size_def Pane_inner_size_def Pane_set_size_def Pane_set_inner_size_def
      Pane_to_dict_def serialize_def expand_nodes_def has_key_trim_dict)

theorem pane_size_falsy_unset_witness:
  "\<not> truthy (VFloat 0) \<and> Pane_size sample_ext (VFloat 0) = Inr VNone
   \<and> Pane_inner_size sample_ext (VFloat 0) = Inr VNone"
  using pane_size_falsy_unset [of "VFloat 0" sample_ext] by simp


section \<open>What \<^verbatim>\<open>from_dict\<close> does to its argument\<close>

lemma foldl_pop_kwarg_rest:
  "snd (foldl pop_kwarg (kw, d) rows)
     = filter (\<lambda>kv. fst kv \<notin> set (map (\<lambda>row. fst (snd row)) rows)) d"
proof (induction rows arbitrary: kw d)
  case Nil
  then show ?case by simp
next
  case (Cons row rows)
  have "pop_kwarg (kw, d) row
      = (kw @ [(fst row, dict_get d (fst (snd row)) (snd (snd row)))],
         filter (\<lambda>kv. fst kv \<noteq> fst (snd row)) d)"
    by (simp add: pop_kwarg_def dict_pop_def)
  then show ?case using Cons.IH by (auto intro: filter_cong)
qed

text \<open>
  C8. The claim is that \<^verbatim>\<open>from_dict\<close> leaves its argument as it was. It does not: every
  declared key is read with \<^verbatim>\<open>as_dict.pop\<close>, so the caller's mapping loses those entries.
  After \<^verbatim>\<open>AxisMarker.from_dict({"width": 5, "foo": "bar"})\<close> the argument is \<^verbatim>\<open>{"foo": "bar"}\<close>;
  in general the argument keeps exactly the entries whose keys are not declared.
\<close>

theorem from_dict_pops_argument:
  "AxisMarker_from_dict x [(''width'', VInt 5), (''foo'', VStr ''bar'')]
     = ([(''foo'', VStr ''bar'')],
        Inr \<lparr>am_animation = VNone, am_color = VNone, am_width = VInt 5\<rparr>)
   \<and> fst (AxisMarker_from_dict x m)
     = filter (\<lambda>kv. fst kv \<notin> set [''animation'', ''color'', ''width'']) m
   \<and> fst (PaneBackground_from_dict x m)
     = filter (\<lambda>kv. fst kv \<notin> set [''backgroundColor'', ''borderColor'', ''borderWidth'',
                                    ''className'', ''innerRadius'', ''outerRadius'', ''shape'']) m
   \<and> fst (GenericTypeOptions_from_dict x m)
     = filter (\<lambda>kv. fst kv \<notin> set (map (\<lambda>row. fst (snd row))
                                          GenericTypeOptions_external_keys)) m"
proof -
  have a: "AxisMarker_from_dict x [(''width'', VInt 5), (''foo'', VStr ''bar'')]
     = ([(''foo'', VStr ''bar'')],
        Inr \<lparr>am_animation = VNone, am_color = VNone, am_width = VInt 5\<rparr>)"
    by (simp add: AxisMarker_from_dict_def dict_pop_def dict_get_def AxisMarker_init_def
        AxisMarker_animation_def AxisMarker_color_def AxisMarker_width_def validate_types_def
        color_setter_def v_numeric_def v_numeric_bounded_def coerce_numeric_def check_bounds_def)
  have b: "fst (AxisMarker_from_dict x m)
     = filter (\<lambda>kv. fst kv \<notin> set [''animation'', ''color'', ''width'']) m"
    by (auto simp: AxisMarker_from_dict_def dict_pop_def Let_def intro: filter_cong)
  have c: "fst (PaneBackground_from_dict x m)
     = filter (\<lambda>kv. fst kv \<notin> set [''backgroundColor'', ''borderColor'', ''borderWidth'',
                                    ''className'', ''innerRadius'', ''outerRadius'', ''shape'']) m"
    by (auto simp: PaneBackground_from_dict_def dict_pop_def Let_def intro: filter_cong)
  have g: "fst (GenericTypeOptions_from_dict x m)
     = filter (\<lambda>kv. fst kv \<notin> set (map (\<lambda>row. fst (snd row))
                                          GenericTypeOptions_external_keys)) m"
    by (simp add: GenericTypeOptions_from_dict_def GenericTypeOptions_get_kwargs_from_dict_def
        split_def Let_def foldl_pop_kwarg_rest)
  show ?thesis by (intro conjI; fact)
qed


section \<open>Constructing \<^verbatim>\<open>GenericTypeOptions\<close>\<close>

lemma init_assign_Inl [simp]: "init_assign ps kw (Inl e) nd = Inl e"
  by (simp add: init_assign_def)

lemma foldl_init_assign_Inl [simp]: "foldl (init_assign ps kw) (Inl e) nds = Inl e"
  by (induction nds) simp_all

lemma init_assign_no_setter:
  "map_of ps (fst nd) = Some None \<Longrightarrow> isl (init_assign ps kw st nd)"
  by (cases st) (simp_all add: init_assign_def setattr_def)

lemma foldl_init_assign_no_setter:
  assumes "map_of ps (fst nd) = Some None"
  shows "isl (foldl (init_assign ps kw) st (pre @ nd # post))"
proof -
  obtain e where "init_assign ps kw (foldl (init_assign ps kw) st pre) nd = Inl e"
    using init_assign_no_setter [OF assms] by (metis isl_def)
  then show ?thesis by simp
qed

lemma GenericTypeOptions_init_raises: "isl (GenericTypeOptions_init x kwargs)"
proof -
  have split: "GenericTypeOptions_init_defaults =
      take 23 GenericTypeOptions_init_defaults @ (''show_checkbox'', VBool False)
        # drop 24 GenericTypeOptions_init_defaults"
    by (simp add: GenericTypeOptions_init_defaults_def)
  have m: "map_of (GenericTypeOptions_properties x) (fst (''show_checkbox'', VBool False))
      = Some None"
    by (simp add: GenericTypeOptions_properties_def)
  show ?thesis
    unfolding GenericTypeOptions_init_def
    by (subst split) (rule foldl_init_assign_no_setter [OF m])
qed

lemma GenericTypeOptions_kwargs_of_empty:
  "GenericTypeOptions_get_kwargs_from_dict [] = (GenericTypeOptions_init_defaults, [])"
  by (simp add: GenericTypeOptions_get_kwargs_from_dict_def GenericTypeOptions_external_keys_def
      GenericTypeOptions_init_defaults_def pop_kwarg_def dict_pop_def dict_get_def)

lemma foldl_init_assign_succeeds:
  assumes "list_all (\<lambda>nd. case map_of ps (fst nd) of
                            Some (Some fset) \<Rightarrow> \<not> isl (fset (dict_get kw (fst nd) (snd nd)))
                          | _ \<Rightarrow> False) nds"
  shows "\<exists>self'. foldl (init_assign ps kw) (Inr self) nds = Inr self'"
  using assms
proof (induction nds arbitrary: self)
  case Nil
  then show ?case by simp
next
  case (Cons nd nds)
  then obtain fset v where "map_of ps (fst nd) = Some (Some fset)"
    and "fset (dict_get kw (fst nd) (snd nd)) = Inr v"
    by (auto split: option.splits simp: isl_def) (metis sum.exhaust)
  then have "init_assign ps kw (Inr self) nd = Inr (dict_set self (CHR ''_'' # fst nd) v)"
    by (simp add: init_assign_def setattr_def)
  then show ?case using Cons by simp
qed

lemma GenericTypeOptions_init_defaults_raises:
  "GenericTypeOptions_init x GenericTypeOptions_init_defaults
     = Inl (AttributeError ''show_checkbox'')"
proof -
  let ?ps = "GenericTypeOptions_properties x"
  let ?kw = "GenericTypeOptions_init_defaults"
  have split: "GenericTypeOptions_init_defaults =
      take 23 GenericTypeOptions_init_defaults @ (''show_checkbox'', VBool False)
        # drop 24 GenericTypeOptions_init_defaults"
    by (simp add: GenericTypeOptions_init_defaults_def)
  have "list_all (\<lambda>nd. case map_of ?ps (fst nd) of
                            Some (Some fset) \<Rightarrow> \<not> isl (fset (dict_get ?kw (fst nd) (snd nd)))
                          | _ \<Rightarrow> False) (take 23 GenericTypeOptions_init_defaults)"
    by code_simp
  from foldl_init_assign_succeeds [OF this] obtain self' where
    pre: "foldl (init_assign ?ps ?kw) (Inr GenericTypeOptions_empty_slots)
            (take 23 GenericTypeOptions_init_defaults) = Inr self'"
    by blast
  have m: "map_of ?ps ''show_checkbox'' = Some None"
    by (simp add: GenericTypeOptions_properties_def)
  have "foldl (init_assign ?ps ?kw) (Inr GenericTypeOptions_empty_slots)
          (take 23 GenericTypeOptions_init_defaults @ (''show_checkbox'', VBool False)
             # drop 24 GenericTypeOptions_init_defaults)
        = Inl (AttributeError ''show_checkbox'')"
    by (simp add: pre init_assign_def setattr_def m del: take_Suc_Cons drop_Suc_Cons)
  then show ?thesis
    unfolding GenericTypeOptions_init_def by (subst split)
qed

text \<open>
  C6. The claim is that \<^verbatim>\<open>GenericTypeOptions.from_dict\<close> returns a node for every mapping of
  valid inputs, the empty mapping included. It never returns: the constructor assigns
  \<^verbatim>\<open>self.show_checkbox\<close>, a property that has no setter, so for the empty mapping the call
  raises \<open>AttributeError\<close>, and for every mapping it raises some error.
\<close>

theorem GenericTypeOptions_from_dict_raises:
  "snd (GenericTypeOptions_from_dict x []) = Inl (AttributeError ''show_checkbox'')
   \<and> isl (snd (GenericTypeOptions_from_dict x m))"
  by (simp add: GenericTypeOptions_from_dict_def GenericTypeOptions_kwargs_of_empty
      GenericTypeOptions_init_defaults_raises GenericTypeOptions_init_raises split_def Let_def)


section \<open>Importing the pane module\<close>

lemmas ann_defs = pane_module_namespace_def ann_color_def ann_numeric_def

text \<open>
  C9. The return annotations of \<^verbatim>\<open>Pane.end_angle\<close> and \<^verbatim>\<open>Pane.start_angle\<close> call
  \<^verbatim>\<open>Optional(...)\<close>, and evaluating such a call raises \<open>TypeError\<close>. The class statement of
  \<^verbatim>\<open>PaneBackground\<close> runs through, the class statement of \<^verbatim>\<open>Pane\<close> raises the \<open>TypeError\<close>,
  hence so does importing the module, and any operation that a client would run after the
  import is never reached.
\<close>

theorem pane_module_import_fails:
  "eval_expr pane_module_namespace (Call (Name ''Optional'') ann_numeric) = Inl TypeError
   \<and> map_of Pane_defs ''end_angle'' = Some (Some (Call (Name ''Optional'') ann_numeric))
   \<and> map_of Pane_defs ''start_angle'' = Some (Some (Call (Name ''Optional'') ann_numeric))
   \<and> exec_class pane_module_namespace ''PaneBackground'' PaneBackground_defs
       = Inr (pane_module_namespace @ [(''PaneBackground'', TClass ''PaneBackground'')])
   \<and> exec_class (pane_module_namespace @ [(''PaneBackground'', TClass ''PaneBackground'')])
         ''Pane'' Pane_defs = Inl TypeError
   \<and> import_pane_module = Inl TypeError
   \<and> after_import operation = Inl TypeError"
proof -
  have pb: "exec_class pane_module_namespace ''PaneBackground'' PaneBackground_defs
       = Inr (pane_module_namespace @ [(''PaneBackground'', TClass ''PaneBackground'')])"
    by (simp add: exec_class_def PaneBackground_defs_def ann_defs)
  have p: "exec_class (pane_module_namespace @ [(''PaneBackground'', TClass ''PaneBackground'')])
         ''Pane'' Pane_defs = Inl TypeError"
    by (simp add: exec_class_def Pane_defs_def ann_defs)
  have imp: "import_pane_module = Inl TypeError"
    by (simp add: import_pane_module_def pb p)
  have e: "eval_expr pane_module_namespace (Call (Name ''Optional'') ann_numeric) = Inl TypeError"
    by (simp add: ann_defs)
  have m1: "map_of Pane_defs ''end_angle'' = Some (Some (Call (Name ''Optional'') ann_numeric))"
    by (simp add: Pane_defs_def)
  have m2: "map_of Pane_defs ''start_angle'' = Some (Some (Call (Name ''Optional'') ann_numeric))"
    by (simp add: Pane_defs_def)
  have ai: "after_import operation = Inl TypeError"
    by (simp add: after_import_def imp)
  show ?thesis by (intro conjI; fact)
qed


section \<open>Round trips\<close>

text \<open>Every setter returns a value that it accepts unchanged.\<close>

lemma color_setter_shape:
  assumes "color_setter x v = Inr c"
  shows "c = VNone \<or> isinstance c ''Gradient'' \<or> isinstance c ''Pattern''
         \<or> (c = v \<and> (\<exists>s. v = VStr s))"
proof (cases "truthy v")
  case False
  then show ?thesis using assms by (simp add: color_setter_def)
next
  case t: True
  show ?thesis
  proof (cases "isinstance v ''Gradient'' \<or> isinstance v ''Pattern''")
    case True
    then show ?thesis using assms t by (auto simp: color_setter_def)
  next
    case ni: False
    show ?thesis
    proof (cases "dict_or_str_contains v ''linearGradient''")
      case True
      then have "color_setter x v =
          (case Gradient_from_json x v of
             Inr g \<Rightarrow> Inr (VObj ''Gradient'' g)
           | Inl e \<Rightarrow>
               if is_ValueError e then
                 (case v of
                    VDict d \<Rightarrow> instance_of ''Gradient'' (Gradient_from_dict x d)
                  | _ \<Rightarrow> v_string v False)
               else Inl e)"
        using t ni by (simp add: color_setter_def)
      then show ?thesis using assms t
        by (cases v)
           (auto simp: instance_of_def v_string_def split: sum.splits if_splits)
    next
      case ng: False
      show ?thesis
      proof (cases "dict_contains v ''linear_gradient''")
        case True
        then have "color_setter x v = instance_of ''Gradient'' (Gradient_init x (kwargs_of v))"
          using t ni ng by (simp add: color_setter_def)
        then show ?thesis using assms by (auto simp: instance_of_def split: sum.splits)
      next
        case nl: False
        show ?thesis
        proof (cases "dict_or_str_contains v ''patternOptions''")
          case True
          then have "color_setter x v =
              (case Pattern_from_json x v of
                 Inr p \<Rightarrow> Inr (VObj ''Pattern'' p)
               | Inl e \<Rightarrow>
                   if is_ValueError e then
                     (case v of
                        VDict d \<Rightarrow> instance_of ''Pattern'' (Pattern_from_dict x d)
                      | _ \<Rightarrow> v_string v False)
                   else Inl e)"
            using t ni ng nl by (simp add: color_setter_def)
          then show ?thesis using assms t
            by (cases v)
               (auto simp: instance_of_def v_string_def split: sum.splits if_splits)
        next
          case np: False
          show ?thesis
          proof (cases "dict_contains v ''pattern_options''")
            case True
            then have "color_setter x v = instance_of ''Pattern'' (Pattern_init x (kwargs_of v))"
              using t ni ng nl np by (simp add: color_setter_def)
            then show ?thesis using assms by (auto simp: instance_of_def split: sum.splits)
          next
            case False
            then show ?thesis using assms t ni ng nl np by (simp add: color_setter_def)
          qed
        qed
      qed
    qed
  qed
qed

lemma color_setter_instance:
  "isinstance c ''Gradient'' \<or> isinstance c ''Pattern'' \<Longrightarrow> color_setter x c = Inr c"
  by (cases c) (auto simp: color_setter_def)

lemma color_setter_stable:
  assumes "color_setter x v = Inr c"
  shows "leaf c \<and> color_setter x c = Inr c"
proof -
  from color_setter_shape [OF assms]
  consider "c = VNone" | "isinstance c ''Gradient'' \<or> isinstance c ''Pattern''"
    | "c = v \<and> (\<exists>s. v = VStr s)" by blast
  then show ?thesis
  proof cases
    case 1
    then show ?thesis by (simp add: color_setter_def)
  next
    case 2
    then show ?thesis using color_setter_instance [of c x] by (cases c) auto
  next
    case 3
    then show ?thesis using assms by auto
  qed
qed

lemma check_bounds_None [simp]: "check_bounds None None v = Inr v"
  by (simp add: check_bounds_def)

lemma v_numeric_unbounded:
  "v_numeric x v ae =
     (if v = VNone then (if ae then Inr VNone else Inl EmptyValueError) else coerce_numeric x v)"
  by (cases "coerce_numeric x v") (simp_all add: v_numeric_def v_numeric_bounded_def)

lemma coerce_numeric_stable:
  "coerce_numeric x v = Inr w \<Longrightarrow>
   leaf w \<and> \<not> is_node w \<and> w \<noteq> VNone \<and> (\<forall>s. w \<noteq> VStr s) \<and> coerce_numeric x w = Inr w"
  by (cases v) (auto simp: coerce_numeric_def split: option.splits)

lemma v_numeric_stable:
  "v_numeric x v True = Inr w \<Longrightarrow> leaf w \<and> \<not> is_node w \<and> v_numeric x w True = Inr w"
  using coerce_numeric_stable [of x v w]
  by (cases "v = VNone") (auto simp: v_numeric_unbounded)

lemma validate_node_instance: "validate_node fd cls (VObj cls p) = Inr (VObj cls p)"
  by (simp add: validate_node_def)

lemma validate_node_result:
  "validate_node fd cls v = Inr a \<Longrightarrow> \<exists>p. a = VObj cls p"
  by (cases v) (auto simp: validate_node_def instance_of_def split: if_splits sum.splits)

lemma validate_types_single_stable:
  assumes "validate_types fd cls False v = Inr a"
  shows "leaf a \<and> validate_types fd cls False a = Inr a"
proof (cases "truthy v")
  case False
  then show ?thesis using assms by (simp add: validate_types_def)
next
  case True
  then have "validate_node fd cls v = Inr a" using assms by (simp add: validate_types_def)
  then obtain p where "a = VObj cls p" using validate_node_result by blast
  then show ?thesis by (simp add: validate_types_def validate_node_instance)
qed

lemma AxisMarker_animation_stable:
  assumes "AxisMarker_animation x v = Inr a"
  shows "leaf a \<and> AxisMarker_animation x a = Inr a"
proof (cases "v = VBool False")
  case True
  then have "a = VBool False" using assms by (simp add: AxisMarker_animation_def)
  then show ?thesis by (simp add: AxisMarker_animation_def)
next
  case False
  then have "validate_types (node_from_dict x ''AnimationOptions'') ''AnimationOptions'' False v
      = Inr a"
    using assms by (simp add: AxisMarker_animation_def)
  from validate_types_single_stable [OF this] show ?thesis
    by (simp add: AxisMarker_animation_def)
qed

lemma AxisMarker_animation_node:
  "AxisMarker_animation x (VObj c p) = Inr a \<Longrightarrow> c = ''AnimationOptions''"
  by (simp add: AxisMarker_animation_def validate_types_def validate_node_def
      split: if_splits)

lemma AxisMarker_animation_mapping:
  "t \<noteq> [] \<Longrightarrow>
   AxisMarker_animation x (VDict t)
     = instance_of ''AnimationOptions'' (node_from_dict x ''AnimationOptions'' t)"
  by (simp add: AxisMarker_animation_def validate_types_def validate_node_def)

lemma AxisMarker_animation_None: "AxisMarker_animation x VNone = Inr VNone"
  by (simp add: AxisMarker_animation_def validate_types_def)

lemma v_string_result:
  "v_string v ae = Inr c \<Longrightarrow> c = VNone \<or> (c = v \<and> (\<exists>s. v = VStr s \<and> s \<noteq> []))"
  by (cases v) (auto simp: v_string_def split: if_splits)

lemma v_string_nonempty [simp]: "s \<noteq> [] \<Longrightarrow> v_string (VStr s) ae = Inr (VStr s)"
  by (simp add: v_string_def)

lemma v_string_None [simp]: "v_string VNone True = Inr VNone"
  by (simp add: v_string_def)

lemma v_string_stable:
  "v_string v True = Inr c \<Longrightarrow> leaf c \<and> \<not> is_node c \<and> v_string c True = Inr c"
  using v_string_result [of v True c] by auto

text \<open>
  A radius is read as a string first. What the string validator raises on a truthy value
  that is not a string is no \<open>ValueError\<close>, so the numeric validator in the handler never
  runs: the slot holds a non-empty string or \<open>None\<close>.
\<close>

lemma try_string_numeric_result:
  assumes "try_except_ValueError (v_string v True) (v_numeric x v True) = Inr r"
  shows "r = VNone \<or> (r = v \<and> (\<exists>s. v = VStr s \<and> s \<noteq> []))"
proof (cases "v_string v True")
  case (Inr c)
  then have "r = c" using assms by (simp add: try_except_ValueError_def)
  then show ?thesis using v_string_result [OF Inr] by auto
next
  case (Inl e)
  then have "e = CannotCoerceError"
    by (cases v) (auto simp: v_string_def split: if_splits)
  then show ?thesis using assms Inl by (simp add: try_except_ValueError_def)
qed

lemma inner_radius_stable:
  assumes "PaneBackground_inner_radius x v = Inr r"
  shows "leaf r \<and> \<not> is_node r \<and> PaneBackground_inner_radius x r = Inr r"
proof (cases "v = VNone \<or> v = VStr []")
  case True
  then have "r = VNone" using assms by (auto simp: PaneBackground_inner_radius_def)
  then show ?thesis by (simp add: PaneBackground_inner_radius_def)
next
  case False
  then have "try_except_ValueError (v_string v True) (v_numeric x v True) = Inr r"
    using assms by (simp add: PaneBackground_inner_radius_def)
  from try_string_numeric_result [OF this]
  consider "r = VNone" | "r = v \<and> (\<exists>s. v = VStr s \<and> s \<noteq> [])" by blast
  then show ?thesis
  proof cases
    case 1
    then show ?thesis by (simp add: PaneBackground_inner_radius_def)
  next
    case 2
    then show ?thesis using assms by auto
  qed
qed

lemma outer_radius_stable:
  assumes "PaneBackground_outer_radius x v = Inr r"
  shows "leaf r \<and> \<not> is_node r \<and> PaneBackground_outer_radius x r = Inr r"
proof (cases "v = VNone \<or> v = VStr []")
  case True
  then have "r = VNone" using assms by (auto simp: PaneBackground_outer_radius_def)
  then show ?thesis by (simp add: PaneBackground_outer_radius_def)
next
  case False
  then have "try_except_ValueError (v_string v True) (v_numeric x v True) = Inr r"
    using assms by (simp add: PaneBackground_outer_radius_def)
  from try_string_numeric_result [OF this]
  consider "r = VNone" | "r = v \<and> (\<exists>s. v = VStr s \<and> s \<noteq> [])" by blast
  then show ?thesis
  proof cases
    case 1
    then show ?thesis by (simp add: PaneBackground_outer_radius_def)
  next
    case 2
    then show ?thesis using assms by auto
  qed
qed

lemma shape_result:
  assumes "PaneBackground_shape v = Inr r"
  shows "r = VNone \<or> r = VStr ''circle'' \<or> r = VStr ''solid'' \<or> r = VStr ''arc''"
proof (cases "truthy v")
  case False
  then show ?thesis using assms by (simp add: PaneBackground_shape_def)
next
  case True
  then obtain c where "v_string v False = Inr c"
    and "(let l = str_lower (the_str c) in
          if l \<notin> set [''circle'', ''solid'', ''arc''] then Inl (HighchartsValueError (VStr l))
          else Inr (VStr l)) = Inr r"
    using assms by (auto simp: PaneBackground_shape_def bind_eq_Inr)
  then show ?thesis by (auto simp: Let_def split: if_splits)
qed

lemma shape_accepts:
  "PaneBackground_shape VNone = Inr VNone"
  "PaneBackground_shape (VStr ''circle'') = Inr (VStr ''circle'')"
  "PaneBackground_shape (VStr ''solid'') = Inr (VStr ''solid'')"
  "PaneBackground_shape (VStr ''arc'') = Inr (VStr ''arc'')"
  by (simp_all add: PaneBackground_shape_def str_lower_def lower_char_def)

lemma shape_stable:
  "PaneBackground_shape v = Inr r \<Longrightarrow>
   leaf r \<and> \<not> is_node r \<and> PaneBackground_shape r = Inr r"
  using shape_result [of v r] shape_accepts by auto

text \<open>The slots of a node that its constructor returned.\<close>

lemma AxisMarker_init_slots:
  assumes "AxisMarker_init x kw = Inr a"
  shows "leaf (am_animation a) \<and> AxisMarker_animation x (am_animation a) = Inr (am_animation a)"
    and "leaf (am_color a) \<and> AxisMarker_color x (am_color a) = Inr (am_color a)"
    and "leaf (am_width a) \<and> \<not> is_node (am_width a)
         \<and> AxisMarker_width x (am_width a) = Inr (am_width a)"
proof -
  from assms obtain A C W where
    sA: "AxisMarker_animation x (dict_get kw ''animation'' VNone) = Inr A" and
    sC: "color_setter x (dict_get kw ''color'' VNone) = Inr C" and
    sW: "v_numeric x (dict_get kw ''width'' VNone) True = Inr W" and
    a: "a = \<lparr>am_animation = A, am_color = C, am_width = W\<rparr>"
    unfolding AxisMarker_init_def AxisMarker_color_def AxisMarker_width_def bind_eq_Inr
    by auto
  show "leaf (am_animation a) \<and> AxisMarker_animation x (am_animation a) = Inr (am_animation a)"
    using AxisMarker_animation_stable [OF sA] by (simp add: a)
  show "leaf (am_color a) \<and> AxisMarker_color x (am_color a) = Inr (am_color a)"
    using color_setter_stable [OF sC] by (simp add: a AxisMarker_color_def)
  show "leaf (am_width a) \<and> \<not> is_node (am_width a)
         \<and> AxisMarker_width x (am_width a) = Inr (am_width a)"
    using v_numeric_stable [OF sW] by (simp add: a AxisMarker_width_def)
qed

lemma PaneBackground_init_slots:
  assumes "PaneBackground_init x kw = Inr p"
  shows "leaf (pb_background_color p)
         \<and> PaneBackground_background_color x (pb_background_color p) = Inr (pb_background_color p)"
    and "leaf (pb_border_color p)
         \<and> PaneBackground_border_color x (pb_border_color p) = Inr (pb_border_color p)"
    and "leaf (pb_border_width p) \<and> \<not> is_node (pb_border_width p)
         \<and> PaneBackground_border_width x (pb_border_width p) = Inr (pb_border_width p)"
    and "leaf (pb_class_name p) \<and> \<not> is_node (pb_class_name p)
         \<and> PaneBackground_class_name (pb_class_name p) = Inr (pb_class_name p)"
    and "leaf (pb_inner_radius p) \<and> \<not> is_node (pb_inner_radius p)
         \<and> PaneBackground_inner_radius x (pb_inner_radius p) = Inr (pb_inner_radius p)"
    and "leaf (pb_outer_radius p) \<and> \<not> is_node (pb_outer_radius p)
         \<and> PaneBackground_outer_radius x (pb_outer_radius p) = Inr (pb_outer_radius p)"
    and "leaf (pb_shape p) \<and> \<not> is_node (pb_shape p)
         \<and> PaneBackground_shape (pb_shape p) = Inr (pb_shape p)"
proof -
  from assms obtain v1 v2 v3 v4 v5 v6 v7 bg bc bw cn ir orad sh where
    s1: "color_setter x v1 = Inr bg" and
    s2: "color_setter x v2 = Inr bc" and
    s3: "v_numeric x v3 True = Inr bw" and
    s4: "v_string v4 True = Inr cn" and
    s5: "PaneBackground_inner_radius x v5 = Inr ir" and
    s6: "PaneBackground_outer_radius x v6 = Inr orad" and
    s7: "PaneBackground_shape v7 = Inr sh" and
    p: "p = \<lparr>pb_background_color = bg, pb_border_color = bc, pb_border_width = bw,
             pb_class_name = cn, pb_inner_radius = ir, pb_outer_radius = orad,
             pb_shape = sh\<rparr>"
    unfolding PaneBackground_init_def PaneBackground_background_color_def
      PaneBackground_border_color_def PaneBackground_border_width_def
      PaneBackground_class_name_def bind_eq_Inr
    by blast
  show "leaf (pb_background_color p)
         \<and> PaneBackground_background_color x (pb_background_color p) = Inr (pb_background_color p)"
    using color_setter_stable [OF s1] by (simp add: p PaneBackground_background_color_def)
  show "leaf (pb_border_color p)
         \<and> PaneBackground_border_color x (pb_border_color p) = Inr (pb_border_color p)"
    using color_setter_stable [OF s2] by (simp add: p PaneBackground_border_color_def)
  show "leaf (pb_border_width p) \<and> \<not> is_node (pb_border_width p)
         \<and> PaneBackground_border_width x (pb_border_width p) = Inr (pb_border_width p)"
    using v_numeric_stable [OF s3] by (simp add: p PaneBackground_border_width_def)
  show "leaf (pb_class_name p) \<and> \<not> is_node (pb_class_name p)
         \<and> PaneBackground_class_name (pb_class_name p) = Inr (pb_class_name p)"
    using v_string_stable [OF s4] by (simp add: p PaneBackground_class_name_def)
  show "leaf (pb_inner_radius p) \<and> \<not> is_node (pb_inner_radius p)
         \<and> PaneBackground_inner_radius x (pb_inner_radius p) = Inr (pb_inner_radius p)"
    using inner_radius_stable [OF s5] by (simp add: p)
  show "leaf (pb_outer_radius p) \<and> \<not> is_node (pb_outer_radius p)
         \<and> PaneBackground_outer_radius x (pb_outer_radius p) = Inr (pb_outer_radius p)"
    using outer_radius_stable [OF s6] by (simp add: p)
  show "leaf (pb_shape p) \<and> \<not> is_node (pb_shape p)
         \<and> PaneBackground_shape (pb_shape p) = Inr (pb_shape p)"
    using shape_stable [OF s7] by (simp add: p)
qed

lemma AxisMarker_from_dict_reads:
  "snd (AxisMarker_from_dict x d) =
     AxisMarker_init x
       [(''animation'', dict_get d ''animation'' VNone), (''color'', dict_get d ''color'' VNone),
        (''width'', dict_get d ''width'' VNone)]"
  by (simp add: AxisMarker_from_dict_def split_def Let_def dict_get_pop_other)

text \<open>An axis marker whose slots hold no nested node comes back as it is.\<close>

lemma AxisMarker_roundtrip_plain:
  assumes i: "AxisMarker_init x kw = Inr a"
    and na: "\<not> is_node (am_animation a)" and nc: "\<not> is_node (am_color a)"
  shows "snd (AxisMarker_from_dict x (AxisMarker_to_dict x a)) = Inr a"
proof -
  define u where "u = AxisMarker_to_untrimmed_dict a"
  note s = AxisMarker_init_slots [OF i]
  have d: "distinct (map fst u)"
    by (simp add: u_def AxisMarker_to_untrimmed_dict_def)
  have m: "map_of u ''animation'' = Some (am_animation a)"
    "map_of u ''color'' = Some (am_color a)" "map_of u ''width'' = Some (am_width a)"
    by (simp_all add: u_def AxisMarker_to_untrimmed_dict_def)
  have "\<forall>kv \<in> set u. leaf (snd kv) \<and> \<not> is_node (snd kv)"
    using s na nc by (simp add: u_def AxisMarker_to_untrimmed_dict_def)
  then have td: "AxisMarker_to_dict x a = filter (\<lambda>kv. snd kv \<noteq> VNone) u"
    unfolding AxisMarker_to_dict_def u_def [symmetric] by (rule serialize_plain)
  have "snd (AxisMarker_from_dict x (AxisMarker_to_dict x a)) =
      AxisMarker_init x [(''animation'', or_default (am_animation a) VNone),
                         (''color'', or_default (am_color a) VNone),
                         (''width'', or_default (am_width a) VNone)]"
    unfolding td AxisMarker_from_dict_reads
    by (simp only: dict_get_set_entries [OF d] m)
  also have "\<dots> = Inr a"
    using s by (simp add: AxisMarker_init_def dict_get_def or_default_def)
  finally show ?thesis .
qed

text \<open>
  An axis marker whose animation slot holds a nested node: the node is serialised, trimmed
  and handed to the \<^verbatim>\<open>from_dict\<close> of its class; the marker comes back as it is exactly when
  the nested node does.
\<close>

lemma AxisMarker_roundtrip_nested:
  assumes i: "AxisMarker_init x kw = Inr a"
    and A: "am_animation a = VObj c p" and nc: "\<not> is_node (am_color a)"
  shows "(snd (AxisMarker_from_dict x (AxisMarker_to_dict x a)) = Inr a)
           = reparses x (am_animation a)"
proof -
  note s = AxisMarker_init_slots [OF i]
  have c: "c = ''AnimationOptions''"
    using s(1) A AxisMarker_animation_node [of x c p "VObj c p"] by simp
  define t where "t = trim_dict (node_to_untrimmed_dict x c p)"
  define w where "w = [(''color'', am_color a), (''width'', am_width a)]"
  have a: "a = \<lparr>am_animation = VObj c p, am_color = am_color a, am_width = am_width a\<rparr>"
    using A by (cases a) simp
  have ex: "expand_nodes x (AxisMarker_to_untrimmed_dict a)
              = (''animation'', VDict (node_to_untrimmed_dict x c p)) # w"
    using s nc
    by (simp add: expand_nodes_def AxisMarker_to_untrimmed_dict_def A w_def expand_node_plain)
  have "\<forall>kv \<in> set w. leaf (snd kv)" using s by (simp add: w_def)
  then have tw: "trim_dict w = filter (\<lambda>kv. snd kv \<noteq> VNone) w" by (rule trim_dict_leaf)
  have td: "AxisMarker_to_dict x a =
      (if t = [] then filter (\<lambda>kv. snd kv \<noteq> VNone) w
       else (''animation'', VDict t) # filter (\<lambda>kv. snd kv \<noteq> VNone) w)"
    by (simp add: AxisMarker_to_dict_def serialize_def ex tw t_def Let_def)
  have dw: "distinct (map fst w)" by (simp add: w_def)
  have mw: "map_of w ''color'' = Some (am_color a)" "map_of w ''width'' = Some (am_width a)"
    by (simp_all add: w_def)
  have g: "dict_get (filter (\<lambda>kv. snd kv \<noteq> VNone) w) ''color'' VNone = am_color a"
    "dict_get (filter (\<lambda>kv. snd kv \<noteq> VNone) w) ''width'' VNone = am_width a"
    by (simp_all add: dict_get_set_entries [OF dw mw(1)] dict_get_set_entries [OF dw mw(2)]
        or_default_def)
  have g0: "dict_get (filter (\<lambda>kv. snd kv \<noteq> VNone) w) ''animation'' VNone = VNone"
    by (simp add: dict_get_def w_def)
  have rd: "snd (AxisMarker_from_dict x (AxisMarker_to_dict x a)) =
      AxisMarker_init x [(''animation'', if t = [] then VNone else VDict t),
                         (''color'', am_color a), (''width'', am_width a)]"
    unfolding AxisMarker_from_dict_reads td
    by (cases "t = []") (simp_all add: g g0 dict_get_Cons)
  have ini: "AxisMarker_init x [(''animation'', v), (''color'', am_color a),
                               (''width'', am_width a)]
      = bind (AxisMarker_animation x v)
          (\<lambda>v'. Inr \<lparr>am_animation = v', am_color = am_color a, am_width = am_width a\<rparr>)"
    for v
    using s by (simp add: AxisMarker_init_def dict_get_def)
  have rp: "reparses x (am_animation a) = (t \<noteq> [] \<and> node_from_dict x c t = Inr p)"
    by (simp add: reparses_def A t_def)
  show ?thesis
  proof (cases "t = []")
    case True
    then have "snd (AxisMarker_from_dict x (AxisMarker_to_dict x a))
        = Inr \<lparr>am_animation = VNone, am_color = am_color a, am_width = am_width a\<rparr>"
      by (simp add: rd ini AxisMarker_animation_None)
    moreover have "\<lparr>am_animation = VNone, am_color = am_color a, am_width = am_width a\<rparr> \<noteq> a"
      using A by (cases a) auto
    ultimately show ?thesis using True by (simp add: rp)
  next
    case False
    then have r: "snd (AxisMarker_from_dict x (AxisMarker_to_dict x a))
        = bind (instance_of c (node_from_dict x c t))
            (\<lambda>v'. Inr \<lparr>am_animation = v', am_color = am_color a, am_width = am_width a\<rparr>)"
      by (simp add: rd ini AxisMarker_animation_mapping c)
    show ?thesis
    proof (cases "node_from_dict x c t")
      case (Inl e)
      then show ?thesis using False by (simp add: r rp instance_of_def)
    next
      case (Inr p')
      then have "snd (AxisMarker_from_dict x (AxisMarker_to_dict x a))
          = Inr \<lparr>am_animation = VObj c p', am_color = am_color a, am_width = am_width a\<rparr>"
        by (simp add: r instance_of_def)
      moreover have "(\<lparr>am_animation = VObj c p', am_color = am_color a, am_width = am_width a\<rparr>
          = a) = (p' = p)"
        using A by (cases a) auto
      ultimately show ?thesis using False Inr by (simp add: rp)
    qed
  qed
qed

lemma AxisMarker_roundtrip:
  assumes i: "AxisMarker_init x kw = Inr a" and nc: "\<not> is_node (am_color a)"
  shows "(snd (AxisMarker_from_dict x (AxisMarker_to_dict x a)) = Inr a)
           = reparses x (am_animation a)"
proof (cases "am_animation a")
  case (VObj c p)
  then show ?thesis by (rule AxisMarker_roundtrip_nested [OF i _ nc])
qed (simp_all add: reparses_def AxisMarker_roundtrip_plain [OF i _ nc])

lemma PaneBackground_init_set_slots:
  "PaneBackground_init x (set_slots p) = PaneBackground_init x (slots_with_defaults x p)"
proof -
  define w where "w =
       [(''background_color'', pb_background_color p), (''border_color'', pb_border_color p),
        (''border_width'', pb_border_width p), (''class_name'', pb_class_name p),
        (''inner_radius'', pb_inner_radius p), (''outer_radius'', pb_outer_radius p),
        (''shape'', pb_shape p)]"
  have d: "distinct (map fst w)" by (simp add: w_def)
  have m: "map_of w ''background_color'' = Some (pb_background_color p)"
    "map_of w ''border_color'' = Some (pb_border_color p)"
    "map_of w ''border_width'' = Some (pb_border_width p)"
    "map_of w ''class_name'' = Some (pb_class_name p)"
    "map_of w ''inner_radius'' = Some (pb_inner_radius p)"
    "map_of w ''outer_radius'' = Some (pb_outer_radius p)"
    "map_of w ''shape'' = Some (pb_shape p)"
    by (simp_all add: w_def)
  have s: "set_slots p = filter (\<lambda>kv. snd kv \<noteq> VNone) w"
    by (simp add: set_slots_def w_def)
  show ?thesis
    unfolding s PaneBackground_init_def slots_with_defaults_def
    by (simp add: dict_get_set_entries [OF d] m) (simp add: dict_get_def)
qed

lemma PaneBackground_from_dict_reads:
  "snd (PaneBackground_from_dict x d) =
     PaneBackground_init x
       [(''background_color'',
           dict_get d ''backgroundColor'' (default_pane_background x ''background_color'')),
        (''border_color'', dict_get d ''borderColor'' (default_pane_background x ''border_color'')),
        (''border_width'', dict_get d ''borderWidth'' (default_pane_background x ''border_width'')),
        (''class_name'', dict_get d ''className'' (default_pane_background x ''class_name'')),
        (''inner_radius'', dict_get d ''innerRadius'' (default_pane_background x ''inner_radius'')),
        (''outer_radius'', dict_get d ''outerRadius'' (default_pane_background x ''outer_radius'')),
        (''shape'', dict_get d ''shape'' (default_pane_background x ''shape''))]"
  by (simp add: PaneBackground_from_dict_def split_def Let_def dict_get_pop_other)

lemma PaneBackground_roundtrip_kwargs:
  assumes "PaneBackground_init x kw = Inr p"
    and nb: "\<not> is_node (pb_background_color p)" "\<not> is_node (pb_border_color p)"
  shows "snd (PaneBackground_from_dict x (PaneBackground_to_dict x p))
           = PaneBackground_init x (set_slots p)"
proof -
  define u where "u =
       [(''backgroundColor'', pb_background_color p), (''borderColor'', pb_border_color p),
        (''borderWidth'', pb_border_width p), (''className'', pb_class_name p),
        (''innerRadius'', pb_inner_radius p), (''outerRadius'', pb_outer_radius p),
        (''shape'', pb_shape p)]"
  note s = PaneBackground_init_slots [OF assms(1)]
  have d: "distinct (map fst u)" by (simp add: u_def)
  have m: "map_of u ''backgroundColor'' = Some (pb_background_color p)"
    "map_of u ''borderColor'' = Some (pb_border_color p)"
    "map_of u ''borderWidth'' = Some (pb_border_width p)"
    "map_of u ''className'' = Some (pb_class_name p)"
    "map_of u ''innerRadius'' = Some (pb_inner_radius p)"
    "map_of u ''outerRadius'' = Some (pb_outer_radius p)"
    "map_of u ''shape'' = Some (pb_shape p)"
    by (simp_all add: u_def)
  have "\<forall>kv \<in> set u. leaf (snd kv) \<and> \<not> is_node (snd kv)" using s nb by (simp add: u_def)
  then have td: "PaneBackground_to_dict x p = filter (\<lambda>kv. snd kv \<noteq> VNone) u"
    unfolding PaneBackground_to_dict_def u_def [symmetric] by (rule serialize_plain)
  have "snd (PaneBackground_from_dict x (PaneBackground_to_dict x p))
           = PaneBackground_init x (slots_with_defaults x p)"
    unfolding td PaneBackground_from_dict_reads slots_with_defaults_def
    by (simp only: dict_get_set_entries [OF d] m)
  then show ?thesis by (simp add: PaneBackground_init_set_slots)
qed

lemma PaneBackground_refill_slots:
  assumes "PaneBackground_init x (slots_with_defaults x p) = Inr p'"
  shows "PaneBackground_background_color x
           (or_default (pb_background_color p) (default_pane_background x ''background_color''))
           = Inr (pb_background_color p')"
    and "PaneBackground_border_color x
           (or_default (pb_border_color p) (default_pane_background x ''border_color''))
           = Inr (pb_border_color p')"
    and "PaneBackground_border_width x
           (or_default (pb_border_width p) (default_pane_background x ''border_width''))
           = Inr (pb_border_width p')"
    and "PaneBackground_class_name
           (or_default (pb_class_name p) (default_pane_background x ''class_name''))
           = Inr (pb_class_name p')"
    and "PaneBackground_inner_radius x
           (or_default (pb_inner_radius p) (default_pane_background x ''inner_radius''))
           = Inr (pb_inner_radius p')"
    and "PaneBackground_outer_radius x
           (or_default (pb_outer_radius p) (default_pane_background x ''outer_radius''))
           = Inr (pb_outer_radius p')"
    and "PaneBackground_shape (or_default (pb_shape p) (default_pane_background x ''shape''))
           = Inr (pb_shape p')"
  using assms
  unfolding PaneBackground_init_def slots_with_defaults_def bind_eq_Inr
  by (auto simp: dict_get_def)

lemma slot_refill:
  assumes "f v = Inr v" and "f (or_default v dflt) = Inr v'"
  shows "(v \<noteq> VNone \<longrightarrow> v' = v) \<and> (v = VNone \<longrightarrow> f dflt = Inr v')"
  using assms by (cases "v = VNone") (simp_all add: or_default_def)

lemma PaneBackground_refill_result:
  assumes i: "PaneBackground_init x kw = Inr p"
    and r: "PaneBackground_init x (set_slots p) = Inr p'"
  shows "same_where_set p p' \<and> unset_from_defaults x p p'"
proof -
  note s = PaneBackground_init_slots [OF i]
  from r have "PaneBackground_init x (slots_with_defaults x p) = Inr p'"
    by (simp add: PaneBackground_init_set_slots)
  note t = PaneBackground_refill_slots [OF this]
  note f = slot_refill [OF conjunct2 [OF s(1)] t(1)] slot_refill [OF conjunct2 [OF s(2)] t(2)]
    slot_refill [OF conjunct2 [OF conjunct2 [OF s(3)]] t(3)]
    slot_refill [OF conjunct2 [OF conjunct2 [OF s(4)]] t(4)]
    slot_refill [OF conjunct2 [OF conjunct2 [OF s(5)]] t(5)]
    slot_refill [OF conjunct2 [OF conjunct2 [OF s(6)]] t(6)]
    slot_refill [OF conjunct2 [OF conjunct2 [OF s(7)]] t(7)]
  show ?thesis
    unfolding same_where_set_def unset_from_defaults_def
    using f by blast
qed

text \<open>
  The constructor called with the set slots of a node returns that node exactly when, for
  every unset slot, the setter makes \<open>None\<close> of the slot's default.
\<close>

lemma PaneBackground_refill_iff:
  assumes i: "PaneBackground_init x kw = Inr p"
  shows "(PaneBackground_init x (set_slots p) = Inr p) = unset_from_defaults x p p"
proof
  assume "PaneBackground_init x (set_slots p) = Inr p"
  from PaneBackground_refill_result [OF i this] show "unset_from_defaults x p p" by simp
next
  assume u: "unset_from_defaults x p p"
  note s = PaneBackground_init_slots [OF i]
  have f: "PaneBackground_background_color x
           (or_default (pb_background_color p) (default_pane_background x ''background_color''))
           = Inr (pb_background_color p)"
    "PaneBackground_border_color x
           (or_default (pb_border_color p) (default_pane_background x ''border_color''))
           = Inr (pb_border_color p)"
    "PaneBackground_border_width x
           (or_default (pb_border_width p) (default_pane_background x ''border_width''))
           = Inr (pb_border_width p)"
    "PaneBackground_class_name
           (or_default (pb_class_name p) (default_pane_background x ''class_name''))
           = Inr (pb_class_name p)"
    "PaneBackground_inner_radius x
           (or_default (pb_inner_radius p) (default_pane_background x ''inner_radius''))
           = Inr (pb_inner_radius p)"
    "PaneBackground_outer_radius x
           (or_default (pb_outer_radius p) (default_pane_background x ''outer_radius''))
           = Inr (pb_outer_radius p)"
    "PaneBackground_shape (or_default (pb_shape p) (default_pane_background x ''shape''))
           = Inr (pb_shape p)"
    using u s unfolding unset_from_defaults_def or_default_def by presburger+
  have "PaneBackground_init x (set_slots p) = PaneBackground_init x (slots_with_defaults x p)"
    by (rule PaneBackground_init_set_slots)
  also have "\<dots> = Inr p"
    unfolding slots_with_defaults_def PaneBackground_init_def
    by (simp add: dict_get_def f)
  finally show "PaneBackground_init x (set_slots p) = Inr p" .
qed

lemma PaneBackground_roundtrip:
  assumes i: "PaneBackground_init x kw = Inr p"
    and nb: "\<not> is_node (pb_background_color p)" "\<not> is_node (pb_border_color p)"
  shows "snd (PaneBackground_from_dict x (PaneBackground_to_dict x p))
           = PaneBackground_init x (set_slots p)"
    and "snd (PaneBackground_from_dict x (PaneBackground_to_dict x p)) = Inr p' \<Longrightarrow>
           same_where_set p p' \<and> unset_from_defaults x p p'"
    and "(snd (PaneBackground_from_dict x (PaneBackground_to_dict x p)) = Inr p)
           = unset_from_defaults x p p"
  using PaneBackground_roundtrip_kwargs [OF i nb] PaneBackground_refill_result [OF i]
    PaneBackground_refill_iff [OF i]
  by simp_all

text \<open>
  A colour slot that holds a \<open>Gradient\<close> or a \<open>Pattern\<close> is serialised to the mapping of that
  node. When the mapping has the key \<^verbatim>\<open>linearGradient\<close>, or the key \<^verbatim>\<open>patternOptions\<close> and no
  gradient key, reading it back runs into the \<open>TypeError\<close> of the colour setter.
\<close>

lemma AxisMarker_roundtrip_color_node:
  assumes i: "AxisMarker_init x kw = Inr a"
    and na: "\<not> is_node (am_animation a)" and C: "am_color a = VObj c g"
    and k: "has_key (trim_dict (node_to_untrimmed_dict x c g)) ''linearGradient''
            \<or> (has_key (trim_dict (node_to_untrimmed_dict x c g)) ''patternOptions''
                \<and> \<not> has_key (trim_dict (node_to_untrimmed_dict x c g)) ''linearGradient''
                \<and> \<not> has_key (trim_dict (node_to_untrimmed_dict x c g)) ''linear_gradient'')"
  shows "snd (AxisMarker_from_dict x (AxisMarker_to_dict x a)) = Inl TypeError"
proof -
  note s = AxisMarker_init_slots [OF i]
  define t where "t = trim_dict (node_to_untrimmed_dict x c g)"
  from k have tn: "t \<noteq> []" unfolding t_def [symmetric] by (auto simp: has_key_def)
  from k have ce: "color_setter x (VDict t) = Inl TypeError"
    unfolding t_def [symmetric]
    using color_setter_gradient_dict [of t x] color_setter_pattern_dict [of t x] by blast
  define u where "u = [(''animation'', am_animation a),
      (''color'', VDict (node_to_untrimmed_dict x c g)), (''width'', am_width a)]"
  have ex: "expand_nodes x (AxisMarker_to_untrimmed_dict a) = u"
    using s na
    by (simp add: expand_nodes_def AxisMarker_to_untrimmed_dict_def C expand_node_plain u_def)
  have d: "distinct (map fst u)" by (simp add: u_def)
  have m: "map_of u ''animation'' = Some (am_animation a)"
    "map_of u ''color'' = Some (VDict (node_to_untrimmed_dict x c g))"
    by (simp_all add: u_def)
  have pa: "(if entry_removed (am_animation a) then VNone else trim_value (am_animation a))
      = am_animation a"
    using s(1) na by (cases "am_animation a") simp_all
  have rd: "dict_get (AxisMarker_to_dict x a) ''animation'' VNone = am_animation a"
    "dict_get (AxisMarker_to_dict x a) ''color'' VNone = VDict t"
    unfolding AxisMarker_to_dict_def serialize_def ex
    using tn by (simp_all add: dict_get_trim_dict [OF d] m pa) (simp_all add: t_def)
  show ?thesis
    unfolding AxisMarker_from_dict_reads
    using s(1) by (simp add: AxisMarker_init_def dict_get_Cons rd AxisMarker_color_def ce)
qed


text \<open>
  C1, as the code has it. Take a node that its constructor returned and whose colour slots
  hold no \<open>Gradient\<close> or \<open>Pattern\<close>. For an \<^verbatim>\<open>AxisMarker\<close>, \<^verbatim>\<open>from_dict(to_dict(n))\<close> returns a node
  equal to \<open>n\<close> on every slot, unset slots included, exactly when the animation slot holds
  no nested node or holds one that comes back from its own serialisation. For a
  \<^verbatim>\<open>PaneBackground\<close>, \<^verbatim>\<open>from_dict(to_dict(n))\<close> is the constructor called with the set slots of
  \<open>n\<close> as keywords: where it returns a node, that node equals \<open>n\<close> on every slot that is set
  in \<open>n\<close>, and a slot that is unset in \<open>n\<close> holds what the slot's setter makes of its entry
  in \<^verbatim>\<open>DEFAULT_PANE_BACKGROUND\<close>, not \<open>None\<close>; the round trip returns \<open>n\<close> itself exactly when
  the setter of every unset slot makes \<open>None\<close> of that entry.
\<close>

theorem roundtrip_set_slots:
  "(AxisMarker_init x kw = Inr a \<and> \<not> is_node (am_color a) \<longrightarrow>
      (snd (AxisMarker_from_dict x (AxisMarker_to_dict x a)) = Inr a)
        = reparses x (am_animation a))
   \<and> (PaneBackground_init x kw' = Inr p
        \<and> \<not> is_node (pb_background_color p) \<and> \<not> is_node (pb_border_color p) \<longrightarrow>
        snd (PaneBackground_from_dict x (PaneBackground_to_dict x p))
          = PaneBackground_init x (set_slots p)
        \<and> (\<forall>p'. snd (PaneBackground_from_dict x (PaneBackground_to_dict x p)) = Inr p' \<longrightarrow>
              same_where_set p p' \<and> unset_from_defaults x p p')
        \<and> (snd (PaneBackground_from_dict x (PaneBackground_to_dict x p)) = Inr p)
            = unset_from_defaults x p p)"
  using AxisMarker_roundtrip [of x kw a] PaneBackground_roundtrip [of x kw' p]
  by blast

theorem roundtrip_set_slots_witness:
  "AxisMarker_init sample_ext
      [(''width'', VInt 5), (''animation'', VDict [(''duration'', VInt 500)])]
     = Inr \<lparr>am_animation = VObj ''AnimationOptions'' (VDict [(''duration'', VInt 500)]),
            am_color = VNone, am_width = VInt 5\<rparr>
   \<and> reparses sample_ext (VObj ''AnimationOptions'' (VDict [(''duration'', VInt 500)]))
   \<and> AxisMarker_to_dict sample_ext
        \<lparr>am_animation = VObj ''AnimationOptions'' (VDict [(''duration'', VInt 500)]),
         am_color = VNone, am_width = VInt 5\<rparr>
     = [(''animation'', VDict [(''duration'', VInt 500)]), (''width'', VInt 5)]
   \<and> snd (AxisMarker_from_dict sample_ext
            (AxisMarker_to_dict sample_ext
               \<lparr>am_animation = VObj ''AnimationOptions'' (VDict [(''duration'', VInt 500)]),
                am_color = VNone, am_width = VInt 5\<rparr>))
     = Inr \<lparr>am_animation = VObj ''AnimationOptions'' (VDict [(''duration'', VInt 500)]),
            am_color = VNone, am_width = VInt 5\<rparr>
   \<and> PaneBackground_init sample_ext [(''inner_radius'', VStr ''50%''), (''shape'', VStr ''Arc'')]
     = Inr \<lparr>pb_background_color = VNone, pb_border_color = VNone, pb_border_width = VNone,
            pb_class_name = VNone, pb_inner_radius = VStr ''50%'', pb_outer_radius = VNone,
            pb_shape = VStr ''arc''\<rparr>
   \<and> unset_from_defaults sample_ext
        \<lparr>pb_background_color = VNone, pb_border_color = VNone, pb_border_width = VNone,
         pb_class_name = VNone, pb_inner_radius = VStr ''50%'', pb_outer_radius = VNone,
         pb_shape = VStr ''arc''\<rparr>
        \<lparr>pb_background_color = VNone, pb_border_color = VNone, pb_border_width = VNone,
         pb_class_name = VNone, pb_inner_radius = VStr ''50%'', pb_outer_radius = VNone,
         pb_shape = VStr ''arc''\<rparr>
   \<and> snd (PaneBackground_from_dict sample_ext
            (PaneBackground_to_dict sample_ext
               \<lparr>pb_background_color = VNone, pb_border_color = VNone, pb_border_width = VNone,
                pb_class_name = VNone, pb_inner_radius = VStr ''50%'', pb_outer_radius = VNone,
                pb_shape = VStr ''arc''\<rparr>))
     = Inr \<lparr>pb_background_color = VNone, pb_border_color = VNone, pb_border_width = VNone,
            pb_class_name = VNone, pb_inner_radius = VStr ''50%'', pb_outer_radius = VNone,
            pb_shape = VStr ''arc''\<rparr>"
proof -
  let ?n = "VObj ''AnimationOptions'' (VDict [(''duration'', VInt 500)])"
  let ?a = "\<lparr>am_animation = ?n, am_color = VNone, am_width = VInt 5\<rparr>"
  let ?p = "\<lparr>pb_background_color = VNone, pb_border_color = VNone, pb_border_width = VNone,
            pb_class_name = VNone, pb_inner_radius = VStr ''50%'', pb_outer_radius = VNone,
            pb_shape = VStr ''arc''\<rparr>"
  let ?kwa = "[(''width'', VInt 5), (''animation'', VDict [(''duration'', VInt 500)])]"
  let ?kwp = "[(''inner_radius'', VStr ''50%''), (''shape'', VStr ''Arc'')]"
  have a: "AxisMarker_init sample_ext ?kwa = Inr ?a"
    by code_simp
  have n: "reparses sample_ext ?n"
    by code_simp
  have t: "AxisMarker_to_dict sample_ext ?a
      = [(''animation'', VDict [(''duration'', VInt 500)]), (''width'', VInt 5)]"
    by code_simp
  have p: "PaneBackground_init sample_ext ?kwp = Inr ?p"
    by code_simp
  have u: "unset_from_defaults sample_ext ?p ?p"
    by code_simp
  note rt = roundtrip_set_slots [of sample_ext ?kwa ?a ?kwp ?p]
  have ha: "AxisMarker_init sample_ext ?kwa = Inr ?a \<and> \<not> is_node (am_color ?a)"
    using a by simp
  have hp: "PaneBackground_init sample_ext ?kwp = Inr ?p
      \<and> \<not> is_node (pb_background_color ?p) \<and> \<not> is_node (pb_border_color ?p)"
    using p by simp
  from rt ha n
  have ra: "snd (AxisMarker_from_dict sample_ext (AxisMarker_to_dict sample_ext ?a)) = Inr ?a"
    by simp
  from rt hp
  have "(snd (PaneBackground_from_dict sample_ext (PaneBackground_to_dict sample_ext ?p)) = Inr ?p)
      = unset_from_defaults sample_ext ?p ?p"
    by blast
  with u
  have rp: "snd (PaneBackground_from_dict sample_ext (PaneBackground_to_dict sample_ext ?p))
      = Inr ?p"
    by blast
  from a n t ra p u rp show ?thesis by (intro conjI)
qed

text \<open>
  A pane background built with every slot explicitly unset does not come back unset when
  \<^verbatim>\<open>DEFAULT_PANE_BACKGROUND\<close> has an entry that its setter keeps. The table is a parameter;
  here it is the one-entry table with a default border width of 1: the node is serialised
  to the empty mapping, and reading that back returns a node whose border width is 1.
\<close>

theorem roundtrip_unset_slot_refilled:
  "PaneBackground_init (sample_ext\<lparr>DEFAULT_PANE_BACKGROUND := [(''border_width'', VInt 1)]\<rparr>)
      [(''background_color'', VNone), (''border_color'', VNone), (''border_width'', VNone),
       (''class_name'', VNone), (''inner_radius'', VNone), (''outer_radius'', VNone),
       (''shape'', VNone)]
     = Inr \<lparr>pb_background_color = VNone, pb_border_color = VNone, pb_border_width = VNone,
            pb_class_name = VNone, pb_inner_radius = VNone, pb_outer_radius = VNone,
            pb_shape = VNone\<rparr>
   \<and> PaneBackground_to_dict (sample_ext\<lparr>DEFAULT_PANE_BACKGROUND := [(''border_width'', VInt 1)]\<rparr>)
        \<lparr>pb_background_color = VNone, pb_border_color = VNone, pb_border_width = VNone,
         pb_class_name = VNone, pb_inner_radius = VNone, pb_outer_radius = VNone,
         pb_shape = VNone\<rparr>
     = []
   \<and> snd (PaneBackground_from_dict
            (sample_ext\<lparr>DEFAULT_PANE_BACKGROUND := [(''border_width'', VInt 1)]\<rparr>)
            (PaneBackground_to_dict
               (sample_ext\<lparr>DEFAULT_PANE_BACKGROUND := [(''border_width'', VInt 1)]\<rparr>)
               \<lparr>pb_background_color = VNone, pb_border_color = VNone, pb_border_width = VNone,
                pb_class_name = VNone, pb_inner_radius = VNone, pb_outer_radius = VNone,
                pb_shape = VNone\<rparr>))
     = Inr \<lparr>pb_background_color = VNone, pb_border_color = VNone, pb_border_width = VInt 1,
            pb_class_name = VNone, pb_inner_radius = VNone, pb_outer_radius = VNone,
            pb_shape = VNone\<rparr>"
  by code_simp

end
